theory Spec2Isabelle
  imports Complex_Main "HOL-Library.Word"
begin

section \<open>JavaScript strings and values\<close>

text \<open>
  A JavaScript string is a sequence of UTF-16 code units; each unit is modelled by its
  number. \<open>js\<close> turns an ASCII literal of the source into such a sequence.
\<close>

type_synonym jstring = "nat list"

definition js :: "string \<Rightarrow> jstring" where
  "js s = map of_char s"

definition nl :: nat where
  "nl = 10"

definition dq :: nat where
  "dq = 34"

text \<open>
  \<open>String.prototype.trim\<close> removes WhiteSpace and LineTerminator code units from both
  ends (ECMA-262: TAB, LF, VT, FF, CR, SP, NBSP, the Unicode space separators, LS, PS
  and the byte order mark).
\<close>

definition is_white_space :: "nat \<Rightarrow> bool" where
  "is_white_space c =
     (c = 9 \<or> c = 10 \<or> c = 11 \<or> c = 12 \<or> c = 13 \<or> c = 32 \<or> c = 160 \<or> c = 5760
      \<or> (8192 \<le> c \<and> c \<le> 8202) \<or> c = 8232 \<or> c = 8233 \<or> c = 8239 \<or> c = 8287
      \<or> c = 12288 \<or> c = 65279)"

definition trim :: "jstring \<Rightarrow> jstring" where
  "trim s = rev (dropWhile is_white_space (rev (dropWhile is_white_space s)))"

definition startsWith :: "jstring \<Rightarrow> jstring \<Rightarrow> bool" where
  "startsWith s p = (take (length p) s = p)"

text \<open>\<open>s.split('\n')\<close>: the segments between newlines, never an empty array.\<close>

fun split_nl :: "jstring \<Rightarrow> jstring list" where
  "split_nl [] = [[]]"
| "split_nl (c # cs) =
     (if c = nl then [] # split_nl cs
      else (case split_nl cs of
              [] \<Rightarrow> [[c]]
            | l # ls \<Rightarrow> (c # l) # ls))"

text \<open>
  The values \<open>JSON.parse\<close> can return, and \<open>undefined\<close> for a property that is
  absent. An object is its list of own properties; a number is the real it denotes
  (only whether it is zero is ever read).
\<close>

datatype jsval =
    JUndefined
  | JNull
  | JBool bool
  | JNum real
  | JStr jstring
  | JArr "jsval list"
  | JObj "(jstring \<times> jsval) list"

text \<open>ToBoolean.\<close>

fun truthy :: "jsval \<Rightarrow> bool" where
  "truthy JUndefined = False"
| "truthy JNull = False"
| "truthy (JBool b) = b"
| "truthy (JNum x) = (x \<noteq> 0)"
| "truthy (JStr s) = (s \<noteq> [])"
| "truthy (JArr xs) = True"
| "truthy (JObj kvs) = True"

text \<open>
  Reading a property, for the keys the parsers read (\<open>type\<close>, \<open>message\<close>,
  \<open>content\<close>, \<open>text\<close>, \<open>delta\<close>, \<open>item\<close>, ...; none of them is a property
  of a built-in prototype). The optional read \<open>v?.k\<close> is the own property of an
  object and \<open>undefined\<close> on every other value. The plain read \<open>v.k\<close> throws a
  TypeError exactly when \<open>v\<close> is \<open>null\<close> or \<open>undefined\<close>, and is \<open>v?.k\<close>
  otherwise.
\<close>

fun opt_prop :: "jsval \<Rightarrow> jstring \<Rightarrow> jsval" where
  "opt_prop JUndefined k = JUndefined"
| "opt_prop JNull k = JUndefined"
| "opt_prop (JObj kvs) k = (case map_of kvs k of None \<Rightarrow> JUndefined | Some v \<Rightarrow> v)"
| "opt_prop v k = JUndefined"

definition nullish :: "jsval \<Rightarrow> bool" where
  "nullish v = (v = JUndefined \<or> v = JNull)"

text \<open>An optional request field is truthy when it is present and not the empty string.\<close>

fun truthy_opt :: "jstring option \<Rightarrow> bool" where
  "truthy_opt None = False"
| "truthy_opt (Some s) = (s \<noteq> [])"

section \<open>Buffer.toString\<close>

text \<open>
  \<open>data.toString()\<close> decodes the bytes of one chunk as UTF-8. A byte that does not
  continue or start a well-formed sequence becomes U+FFFD, and so does a sequence that
  the end of the chunk cuts short. \<open>utf8_go needed cp lo hi bytes\<close> is the decoder
  with \<open>needed\<close> continuation bytes outstanding, each expected within \<open>lo..hi\<close>.
\<close>

function utf8_go :: "nat \<Rightarrow> nat \<Rightarrow> nat \<Rightarrow> nat \<Rightarrow> nat list \<Rightarrow> nat list" where
  "utf8_go 0 cp lo hi [] = []"
| "utf8_go (Suc n) cp lo hi [] = [65533]"
| "utf8_go 0 cp lo hi (b # bs) =
     (if b \<le> 127 then b # utf8_go 0 0 128 191 bs
      else if 194 \<le> b \<and> b \<le> 223 then utf8_go 1 (b mod 32) 128 191 bs
      else if 224 \<le> b \<and> b \<le> 239 then
        utf8_go 2 (b mod 16) (if b = 224 then 160 else 128) (if b = 237 then 159 else 191) bs
      else if 240 \<le> b \<and> b \<le> 244 then
        utf8_go 3 (b mod 8) (if b = 240 then 144 else 128) (if b = 244 then 143 else 191) bs
      else 65533 # utf8_go 0 0 128 191 bs)"
| "utf8_go (Suc n) cp lo hi (b # bs) =
     (if b < lo \<or> hi < b then 65533 # utf8_go 0 0 128 191 (b # bs)
      else if n = 0 then (cp * 64 + b mod 64) # utf8_go 0 0 128 191 bs
      else utf8_go n (cp * 64 + b mod 64) 128 191 bs)"
  by pat_completeness auto
termination
  by (relation "measure (\<lambda>(n, cp, lo, hi, bs). 2 * length bs + (if n = 0 then 0 else 1))") auto

text \<open>A code point above the basic plane is a surrogate pair of two code units.\<close>

fun utf16_units :: "nat \<Rightarrow> nat list" where
  "utf16_units cp =
     (if cp < 65536 then [cp]
      else [55296 + (cp - 65536) div 1024, 56320 + (cp - 65536) mod 1024])"

definition Buffer_toString :: "8 word list \<Rightarrow> jstring" where
  "Buffer_toString data = concat (map utf16_units (utf8_go 0 0 128 191 (map unat data)))"

section \<open>The tool registry\<close>

text \<open>
  \<open>JSON.parse\<close> is a parameter of the model: \<open>None\<close> is its SyntaxError. A run of
  \<open>parseStream(line, emit)\<close> is the list of texts it passed to \<open>emit\<close>, in order,
  and how it ended: with a thrown exception or with a return value.
\<close>

type_synonym json_parse = "jstring \<Rightarrow> jsval option"

datatype completion = Threw | Returned jsval

type_synonym parse_run = "jsval list \<times> completion"

text \<open>
  The loop \<open>for (const block of content) if (block.type === 'text' && block.text)
  emit(block.text)\<close> over the elements of an array: \<open>block.type\<close> throws on a
  \<open>null\<close> element, after the texts of the earlier blocks have been emitted.
\<close>

fun emit_blocks :: "jsval list \<Rightarrow> jsval list \<times> bool" where
  "emit_blocks [] = ([], True)"
| "emit_blocks (block # rest) =
     (if nullish block then ([], False)
      else (case emit_blocks rest of
              (ems, ok) \<Rightarrow>
                ((if opt_prop block (js ''type'') = JStr (js ''text'')
                     \<and> truthy (opt_prop block (js ''text''))
                  then [opt_prop block (js ''text'')] else []) @ ems, ok)))"

text \<open>
  The same loop over any truthy value: an array is iterated; a string is iterated by
  character, and a character has no \<open>type\<close>; any other value is not iterable
  (TypeError).
\<close>

fun for_of_blocks :: "jsval \<Rightarrow> jsval list \<times> bool" where
  "for_of_blocks (JArr xs) = emit_blocks xs"
| "for_of_blocks (JStr s) = ([], True)"
| "for_of_blocks v = ([], False)"

subsection \<open>src/unnamed/part_000\<close>

definition claude_parseStream :: "json_parse \<Rightarrow> jstring \<Rightarrow> parse_run" where
  "claude_parseStream parse line =
     (case parse line of
        None \<Rightarrow> ([], Threw)
      | Some json \<Rightarrow>
          if nullish json then ([], Threw)
          else if opt_prop json (js ''type'') = JStr (js ''assistant'')
                  \<and> truthy (opt_prop (opt_prop json (js ''message'')) (js ''content''))
          then (case for_of_blocks (opt_prop (opt_prop json (js ''message'')) (js ''content'')) of
                  (ems, ok) \<Rightarrow> (ems, if ok then Returned JUndefined else Threw))
          else if opt_prop json (js ''type'') = JStr (js ''content_block_delta'')
                  \<and> truthy (opt_prop (opt_prop json (js ''delta'')) (js ''text''))
          then ([opt_prop (opt_prop json (js ''delta'')) (js ''text'')], Returned JUndefined)
          else ([], Returned JUndefined))"

definition codex_parseStream :: "json_parse \<Rightarrow> jstring \<Rightarrow> parse_run" where
  "codex_parseStream parse line =
     (case parse line of
        None \<Rightarrow> ([], Threw)
      | Some json \<Rightarrow>
          if nullish json then ([], Threw)
          else if opt_prop json (js ''type'') = JStr (js ''item.completed'')
                  \<and> opt_prop (opt_prop json (js ''item'')) (js ''type'') = JStr (js ''agent_message'')
                  \<and> truthy (opt_prop (opt_prop json (js ''item'')) (js ''text''))
          then ([opt_prop (opt_prop json (js ''item'')) (js ''text'')], Returned JUndefined)
          else ([], Returned JUndefined))"

datatype input_mode = Stdin | Arg

record tool_spec =
  command :: jstring
  buildArgs :: "jstring option \<Rightarrow> jstring option \<Rightarrow> jstring list"
  inputMode :: input_mode
  embedSystemPrompt :: bool
  parseStream :: "(json_parse \<Rightarrow> jstring \<Rightarrow> parse_run) option"

text \<open>\<open>if (v) args.push(flag, v)\<close>.\<close>

fun push_if :: "jstring \<Rightarrow> jstring option \<Rightarrow> jstring list" where
  "push_if flag None = []"
| "push_if flag (Some v) = (if v = [] then [] else [flag, v])"

definition claude_buildArgs :: "jstring option \<Rightarrow> jstring option \<Rightarrow> jstring list" where
  "claude_buildArgs model systemPrompt =
     [js ''-p'', js ''--output-format'', js ''stream-json'', js ''--verbose'']
     @ push_if (js ''--model'') model
     @ push_if (js ''--system-prompt'') systemPrompt"

definition codex_buildArgs :: "jstring option \<Rightarrow> jstring option \<Rightarrow> jstring list" where
  "codex_buildArgs model systemPrompt =
     [js ''exec'', js ''--json''] @ push_if (js ''--model'') model"

definition gemini_buildArgs :: "jstring option \<Rightarrow> jstring option \<Rightarrow> jstring list" where
  "gemini_buildArgs model systemPrompt = [] @ push_if (js ''--model'') model"

definition claude :: tool_spec where
  "claude = \<lparr> command = js ''claude'', buildArgs = claude_buildArgs, inputMode = Stdin,
              embedSystemPrompt = False, parseStream = Some claude_parseStream \<rparr>"

definition codex :: tool_spec where
  "codex = \<lparr> command = js ''codex'', buildArgs = codex_buildArgs, inputMode = Stdin,
             embedSystemPrompt = True, parseStream = Some codex_parseStream \<rparr>"

definition gemini :: tool_spec where
  "gemini = \<lparr> command = js ''gemini'', buildArgs = gemini_buildArgs, inputMode = Arg,
              embedSystemPrompt = True, parseStream = None \<rparr>"

definition CLI_TOOLS :: "(jstring \<times> tool_spec) list" where
  "CLI_TOOLS = [(js ''claude'', claude), (js ''codex'', codex), (js ''gemini'', gemini)]"

subsection \<open>src/index.mjs\<close>

text \<open>
  The registry of \<open>index.mjs\<close>: every tool has a parser and takes the system prompt
  as a flag; no entry has an \<open>embedSystemPrompt\<close> field, so a read of it is
  \<open>undefined\<close>, which is falsy. The parsers return \<open>true\<close> or \<open>false\<close>; the caller
  does not read the value.
\<close>

definition claude_parseStream_index :: "json_parse \<Rightarrow> jstring \<Rightarrow> parse_run" where
  "claude_parseStream_index parse line =
     (case parse line of
        None \<Rightarrow> ([], Threw)
      | Some json \<Rightarrow>
          if nullish json then ([], Threw)
          else if opt_prop json (js ''type'') = JStr (js ''assistant'')
                  \<and> truthy (opt_prop (opt_prop json (js ''message'')) (js ''content''))
          then (case for_of_blocks (opt_prop (opt_prop json (js ''message'')) (js ''content'')) of
                  (ems, ok) \<Rightarrow> (ems, if ok then Returned (JBool True) else Threw))
          else if opt_prop json (js ''type'') = JStr (js ''content_block_delta'')
                  \<and> truthy (opt_prop (opt_prop json (js ''delta'')) (js ''text''))
          then ([opt_prop (opt_prop json (js ''delta'')) (js ''text'')], Returned (JBool True))
          else ([], Returned (JBool False)))"

definition codex_parseStream_index :: "json_parse \<Rightarrow> jstring \<Rightarrow> parse_run" where
  "codex_parseStream_index parse line =
     (case parse line of
        None \<Rightarrow> ([], Threw)
      | Some json \<Rightarrow>
          if nullish json then ([], Threw)
          else if opt_prop json (js ''type'') = JStr (js ''message'')
                  \<and> truthy (opt_prop json (js ''content''))
          then ([opt_prop json (js ''content'')], Returned (JBool True))
          else if truthy (opt_prop json (js ''output_text''))
          then ([opt_prop json (js ''output_text'')], Returned (JBool True))
          else if opt_prop json (js ''type'') = JStr (js ''response.output_text.delta'')
                  \<and> truthy (opt_prop json (js ''delta''))
          then ([opt_prop json (js ''delta'')], Returned (JBool True))
          else if opt_prop json (js ''type'') = JStr (js ''response.completed'')
                  \<and> truthy (opt_prop (opt_prop json (js ''response'')) (js ''output_text''))
          then ([opt_prop (opt_prop json (js ''response'')) (js ''output_text'')],
                Returned (JBool True))
          else ([], Returned (JBool False)))"

definition gemini_parseStream_index :: "json_parse \<Rightarrow> jstring \<Rightarrow> parse_run" where
  "gemini_parseStream_index parse line =
     (case parse line of
        None \<Rightarrow> ([], Threw)
      | Some json \<Rightarrow>
          if nullish json then ([], Threw)
          else if opt_prop json (js ''type'') = JStr (js ''assistant'')
                  \<and> truthy (opt_prop (opt_prop json (js ''message'')) (js ''content''))
          then (case for_of_blocks (opt_prop (opt_prop json (js ''message'')) (js ''content'')) of
                  (ems, ok) \<Rightarrow> (ems, if ok then Returned (JBool True) else Threw))
          else if opt_prop json (js ''type'') = JStr (js ''content_block_delta'')
                  \<and> truthy (opt_prop (opt_prop json (js ''delta'')) (js ''text''))
          then ([opt_prop (opt_prop json (js ''delta'')) (js ''text'')], Returned (JBool True))
          else if truthy (opt_prop json (js ''partialText''))
          then ([opt_prop json (js ''partialText'')], Returned (JBool True))
          else if truthy (opt_prop json (js ''text'')) \<and> \<not> truthy (opt_prop json (js ''type''))
          then ([opt_prop json (js ''text'')], Returned (JBool True))
          else ([], Returned (JBool False)))"

definition codex_buildArgs_index :: "jstring option \<Rightarrow> jstring option \<Rightarrow> jstring list" where
  "codex_buildArgs_index model systemPrompt =
     [js ''exec'', js ''--json'']
     @ push_if (js ''--model'') model
     @ push_if (js ''--instructions'') systemPrompt"

definition gemini_buildArgs_index :: "jstring option \<Rightarrow> jstring option \<Rightarrow> jstring list" where
  "gemini_buildArgs_index model systemPrompt =
     [js ''--output-format'', js ''stream-json'']
     @ push_if (js ''--model'') model
     @ push_if (js ''--system-instruction'') systemPrompt"

definition claude_index :: tool_spec where
  "claude_index = \<lparr> command = js ''claude'', buildArgs = claude_buildArgs, inputMode = Stdin,
                    embedSystemPrompt = False, parseStream = Some claude_parseStream_index \<rparr>"

definition codex_index :: tool_spec where
  "codex_index = \<lparr> command = js ''codex'', buildArgs = codex_buildArgs_index, inputMode = Stdin,
                   embedSystemPrompt = False, parseStream = Some codex_parseStream_index \<rparr>"

definition gemini_index :: tool_spec where
  "gemini_index = \<lparr> command = js ''gemini'', buildArgs = gemini_buildArgs_index, inputMode = Arg,
                    embedSystemPrompt = False, parseStream = Some gemini_parseStream_index \<rparr>"

definition CLI_TOOLS_index :: "(jstring \<times> tool_spec) list" where
  "CLI_TOOLS_index =
     [(js ''claude'', claude_index), (js ''codex'', codex_index), (js ''gemini'', gemini_index)]"

section \<open>The chat route\<close>

text \<open>
  The JSON body of \<open>POST /chat\<close>. An optional field is \<open>None\<close> when the body does not
  have it. \<open>messages\<close> is missing, a value that is not an array, or an array of
  messages; a message carries any value as its \<open>role\<close> (\<open>JUndefined\<close> when it has
  none) and a string as its \<open>content\<close>.
\<close>

record message =
  role :: jsval
  content :: jstring

datatype messages_field = Missing | NotAnArray | MessageArray "message list"

record chat_body =
  provider :: "jstring option"
  tool :: "jstring option"
  model :: "jstring option"
  messages :: messages_field
  systemPrompt :: "jstring option"

text \<open>\<open>a || d\<close> for an optional string \<open>a\<close>.\<close>

fun or_else :: "jstring option \<Rightarrow> jstring \<Rightarrow> jstring" where
  "or_else None d = d"
| "or_else (Some a) d = (if a = [] then d else a)"

text \<open>part_000: \<open>const providerName = provider || tool || 'claude'\<close>.\<close>

definition providerName :: "chat_body \<Rightarrow> jstring" where
  "providerName body = or_else (provider body) (or_else (tool body) (js ''claude''))"

text \<open>
  index.mjs: \<open>const { provider = 'claude', model, messages, systemPrompt } = req.body\<close>;
  the default applies when the field is \<open>undefined\<close>, and \<open>tool\<close> is not read.
\<close>

definition providerName_index :: "chat_body \<Rightarrow> jstring" where
  "providerName_index body = (case provider body of None \<Rightarrow> js ''claude'' | Some p \<Rightarrow> p)"

text \<open>
  \<open>CLI_TOOLS[name]\<close> reads a property of an object literal: an own property is a tool;
  a name the object inherits from \<open>Object.prototype\<close> gives that inherited function or
  object, which is truthy and is not a tool; any other name gives \<open>undefined\<close>.
\<close>

datatype lookup = NoProperty | OwnTool tool_spec | InheritedProperty

definition Object_prototype_properties :: "jstring list" where
  "Object_prototype_properties =
     [js ''constructor'', js ''__defineGetter__'', js ''__defineSetter__'',
      js ''hasOwnProperty'', js ''__lookupGetter__'', js ''__lookupSetter__'',
      js ''isPrototypeOf'', js ''propertyIsEnumerable'', js ''toString'', js ''valueOf'',
      js ''__proto__'', js ''toLocaleString'']"

definition lookup_tool :: "(jstring \<times> tool_spec) list \<Rightarrow> jstring \<Rightarrow> lookup" where
  "lookup_tool tools name =
     (case map_of tools name of
        Some t \<Rightarrow> OwnTool t
      | None \<Rightarrow> if name \<in> set Object_prototype_properties then InheritedProperty
                else NoProperty)"

text \<open>\<open>Object.keys(CLI_TOOLS)\<close>.\<close>

definition Object_keys :: "(jstring \<times> tool_spec) list \<Rightarrow> jsval" where
  "Object_keys tools = JArr (map (\<lambda>kv. JStr (fst kv)) tools)"

text \<open>
  \<open>Array.prototype.join\<close>: the result starts empty; before every element but the
  first the separator is appended, then the element.
\<close>

fun join_loop :: "jstring \<Rightarrow> jstring \<Rightarrow> nat \<Rightarrow> jstring list \<Rightarrow> jstring" where
  "join_loop sep R k [] = R"
| "join_loop sep R k (x # xs) = join_loop sep ((if 0 < k then R @ sep else R) @ x) (Suc k) xs"

definition join :: "jstring list \<Rightarrow> jstring \<Rightarrow> jstring" where
  "join xs sep = join_loop sep [] 0 xs"

definition render :: "message \<Rightarrow> jstring" where
  "render m =
     (if role m = JStr (js ''user'') then js ''User'' else js ''Assistant'')
     @ js '': '' @ content m"

definition base_prompt :: "message list \<Rightarrow> jstring" where
  "base_prompt ms = join (map render ms) [nl, nl]"

text \<open>part_000 embeds the system prompt for the tools that ask for it.\<close>

definition build_prompt :: "bool \<Rightarrow> jstring option \<Rightarrow> message list \<Rightarrow> jstring" where
  "build_prompt emb sp ms =
     (case sp of
        None \<Rightarrow> base_prompt ms
      | Some p \<Rightarrow>
          if emb \<and> truthy_opt (Some p)
          then js ''System instructions: '' @ p @ [nl, nl] @ base_prompt ms
          else base_prompt ms)"

definition sse_headers :: "(jstring \<times> jstring) list" where
  "sse_headers =
     [(js ''Content-Type'', js ''text/event-stream''),
      (js ''Cache-Control'', js ''no-cache''),
      (js ''Connection'', js ''keep-alive'')]"

text \<open>
  \<open>child_process.spawn\<close>. Node throws on a command or an argument that holds a NUL
  character, before it asks the operating system. What the operating system then does
  is a parameter of the model (\<open>os\<close>): the process starts; or it cannot be started
  and Node says so later, through the \<open>error\<close> event of the child (ENOENT, EACCES,
  EAGAIN, EMFILE, ENFILE); or \<open>spawn\<close> throws (every other error, such as E2BIG for
  an argument that is too long).
\<close>

datatype spawn_outcome = Started | NotStarted | Throws

type_synonym os_spawn = "jstring \<Rightarrow> jstring list \<Rightarrow> spawn_outcome"

definition has_nul :: "jstring \<Rightarrow> bool" where
  "has_nul s = (0 \<in> set s)"

definition spawn :: "os_spawn \<Rightarrow> jstring \<Rightarrow> jstring list \<Rightarrow> spawn_outcome" where
  "spawn os file args =
     (if has_nul file \<or> list_ex has_nul args then Throws else os file args)"

text \<open>
  What the route has done when its synchronous part ends. It answered with a status
  and a JSON body and returned. Or it flushed the streaming headers and threw a
  TypeError (\<open>cliTool.buildArgs\<close> is not a function) before it called \<open>spawn\<close>.
  Or it flushed the headers and \<open>spawn\<close> threw: neither file catches the exception,
  so the route ends there, with no child and no handler registered. Or it flushed the
  headers, \<open>spawn\<close> returned a child (started or not), the route wrote the prompt to
  the child's standard input in stdin mode, and registered the handlers.
  \<open>stdin_written\<close> is what the route writes, not what the child reads.
\<close>

record spawned =
  flushed_headers :: "(jstring \<times> jstring) list"
  spawn_command :: jstring
  spawn_args :: "jstring list"
  stdin_written :: "jstring option"
  spawn_tool :: tool_spec
  child_started :: bool

datatype chat_result =
    Rejected nat jsval
  | Crashed "(jstring \<times> jstring) list"
  | SpawnThrew "(jstring \<times> jstring) list" jstring "jstring list"
  | Spawned spawned

definition messages_required :: jsval where
  "messages_required = JObj [(js ''error'', JStr (js ''messages array required''))]"

definition unknown_provider :: "(jstring \<times> tool_spec) list \<Rightarrow> jstring \<Rightarrow> jsval" where
  "unknown_provider tools name =
     JObj [(js ''error'', JStr (js ''Unknown provider: '' @ name)),
           (js ''available'', Object_keys tools)]"

text \<open>
  The route from \<open>res.flushHeaders()\<close> to the registration of the handlers, the same
  in both files: build the arguments, call \<open>spawn\<close>, write the prompt.
\<close>

definition start_tool :: "os_spawn \<Rightarrow> tool_spec \<Rightarrow> jstring \<Rightarrow> chat_body \<Rightarrow> chat_result" where
  "start_tool os cliTool prompt body =
     (let args = buildArgs cliTool (model body) (systemPrompt body);
          args = (if inputMode cliTool = Arg then args @ [js ''-p'', prompt] else args)
      in case spawn os (command cliTool) args of
           Throws \<Rightarrow> SpawnThrew sse_headers (command cliTool) args
         | outcome \<Rightarrow>
             Spawned \<lparr> flushed_headers = sse_headers, spawn_command = command cliTool,
                       spawn_args = args,
                       stdin_written = (if inputMode cliTool = Stdin then Some prompt else None),
                       spawn_tool = cliTool,
                       child_started = (outcome = Started) \<rparr>)"

text \<open>The route of part_000.\<close>

definition chat :: "os_spawn \<Rightarrow> chat_body \<Rightarrow> chat_result" where
  "chat os body =
     (case messages body of
        Missing \<Rightarrow> Rejected 400 messages_required
      | NotAnArray \<Rightarrow> Rejected 400 messages_required
      | MessageArray ms \<Rightarrow>
          if ms = [] then Rejected 400 messages_required
          else (case lookup_tool CLI_TOOLS (providerName body) of
                  NoProperty \<Rightarrow> Rejected 400 (unknown_provider CLI_TOOLS (providerName body))
                | InheritedProperty \<Rightarrow> Crashed sse_headers
                | OwnTool cliTool \<Rightarrow>
                    start_tool os cliTool
                      (build_prompt (embedSystemPrompt cliTool) (systemPrompt body) ms) body))"

text \<open>The route of index.mjs: no alias, no embedding.\<close>

definition chat_index :: "os_spawn \<Rightarrow> chat_body \<Rightarrow> chat_result" where
  "chat_index os body =
     (case messages body of
        Missing \<Rightarrow> Rejected 400 messages_required
      | NotAnArray \<Rightarrow> Rejected 400 messages_required
      | MessageArray ms \<Rightarrow>
          if ms = [] then Rejected 400 messages_required
          else (case lookup_tool CLI_TOOLS_index (providerName_index body) of
                  NoProperty \<Rightarrow>
                    Rejected 400 (unknown_provider CLI_TOOLS_index (providerName_index body))
                | InheritedProperty \<Rightarrow> Crashed sse_headers
                | OwnTool cliTool \<Rightarrow> start_tool os cliTool (base_prompt ms) body))"

section \<open>The session of one request\<close>

text \<open>
  The response records the calls made on \<open>res\<close> after the headers, in order. The
  child process records whether it is still running, its \<open>killed\<close> flag and the
  signals it was sent. \<open>proc.kill\<close> is Node's: it signals a running process and sets
  \<open>killed\<close>; on a process that has exited (or was never started) it does nothing and
  raises nothing.
\<close>

datatype res_call = Write jstring | End

datatype signal = SIGTERM

record child_process =
  running :: bool
  killed :: bool
  signals :: "signal list"

definition proc_kill :: "signal \<Rightarrow> child_process \<Rightarrow> child_process" where
  "proc_kill sig p =
     (if running p then p\<lparr>killed := True, signals := signals p @ [sig]\<rparr> else p)"

datatype exit_code = Code int | NoCode

datatype log_entry =
    StderrLog jstring jstring
  | ExitLog jstring exit_code
  | SpawnErrorLog jstring jstring

record session =
  buffer :: jstring
  textSent :: bool
  res :: "res_call list"
  console :: "log_entry list"
  proc :: child_process

text \<open>
  \<open>JSON.stringify\<close> of a value is a parameter \<open>ser\<close> of the model; of an object with
  one property it is the braces, the quoted key, a colon and the value.
\<close>

definition stringify_field :: "(jsval \<Rightarrow> jstring) \<Rightarrow> string \<Rightarrow> jsval \<Rightarrow> jstring" where
  "stringify_field ser key v = js ''{'' @ [dq] @ js key @ [dq] @ js '':'' @ ser v @ js ''}''"

definition text_event :: "(jsval \<Rightarrow> jstring) \<Rightarrow> jsval \<Rightarrow> jstring" where
  "text_event ser text = js ''data: '' @ stringify_field ser ''text'' text @ [nl, nl]"

definition error_event :: "(jsval \<Rightarrow> jstring) \<Rightarrow> jstring \<Rightarrow> jstring" where
  "error_event ser msg = js ''data: '' @ stringify_field ser ''error'' (JStr msg) @ [nl, nl]"

definition DONE :: jstring where
  "DONE = js ''data: [DONE]'' @ [nl, nl]"

text \<open>The callback handed to the parser: \<open>textSent = true; res.write(...)\<close>.\<close>

definition emit :: "(jsval \<Rightarrow> jstring) \<Rightarrow> session \<Rightarrow> jsval \<Rightarrow> session" where
  "emit ser s text = s\<lparr>textSent := True, res := res s @ [Write (text_event ser text)]\<rparr>"

text \<open>The body of \<open>for (const line of lines)\<close> in the stdout handler.\<close>

definition handle_line ::
  "json_parse \<Rightarrow> (jsval \<Rightarrow> jstring) \<Rightarrow> (json_parse \<Rightarrow> jstring \<Rightarrow> parse_run)
   \<Rightarrow> session \<Rightarrow> jstring \<Rightarrow> session" where
  "handle_line parse ser p s line =
     (if trim line = [] then s
      else (case p parse line of
              (ems, c) \<Rightarrow>
                (let s1 = foldl (emit ser) s ems in
                 case c of
                   Returned r \<Rightarrow> s1
                 | Threw \<Rightarrow>
                     (let trimmed = trim line in
                      if trimmed \<noteq> [] \<and> \<not> startsWith trimmed (js ''{'')
                         \<and> \<not> startsWith trimmed (js ''['')
                      then emit ser s1 (JStr (trimmed @ [nl]))
                      else s1))))"

text \<open>\<open>lines.pop() || ''\<close>.\<close>

definition pop_or_empty :: "jstring list \<Rightarrow> jstring" where
  "pop_or_empty lines = (if lines = [] then [] else last lines)"

text \<open>
  The stdout handler on the decoded text of a chunk: a tool without a parser forwards
  the text; otherwise the text joins the buffer, the complete lines are handled in
  order and the last segment stays in the buffer.
\<close>

definition feed ::
  "json_parse \<Rightarrow> (jsval \<Rightarrow> jstring) \<Rightarrow> tool_spec \<Rightarrow> session \<Rightarrow> jstring \<Rightarrow> session" where
  "feed parse ser cliTool s text =
     (case parseStream cliTool of
        None \<Rightarrow> if text \<noteq> [] then emit ser s (JStr text) else s
      | Some p \<Rightarrow>
          (let lines = split_nl (buffer s @ text)
           in foldl (handle_line parse ser p) (s\<lparr>buffer := pop_or_empty lines\<rparr>)
                (butlast lines)))"

definition on_stdout ::
  "json_parse \<Rightarrow> (jsval \<Rightarrow> jstring) \<Rightarrow> tool_spec \<Rightarrow> session \<Rightarrow> 8 word list \<Rightarrow> session" where
  "on_stdout parse ser cliTool s data = feed parse ser cliTool s (Buffer_toString data)"

definition on_stderr :: "jstring \<Rightarrow> session \<Rightarrow> 8 word list \<Rightarrow> session" where
  "on_stderr name s data =
     (let msg = trim (Buffer_toString data)
      in if msg \<noteq> [] then s\<lparr>console := console s @ [StderrLog name msg]\<rparr> else s)"

text \<open>The flush of the remaining buffer at the start of the close handler.\<close>

definition flush :: "json_parse \<Rightarrow> (jsval \<Rightarrow> jstring) \<Rightarrow> tool_spec \<Rightarrow> session \<Rightarrow> session" where
  "flush parse ser cliTool s =
     (if trim (buffer s) \<noteq> [] then
        (case parseStream cliTool of
           None \<Rightarrow> s\<lparr>res := res s @ [Write (text_event ser (JStr (trim (buffer s))))]\<rparr>
         | Some p \<Rightarrow>
             (case p parse (buffer s) of
                (ems, c) \<Rightarrow>
                  (let s1 = foldl (emit ser) s ems in
                   case c of
                     Returned r \<Rightarrow> s1
                   | Threw \<Rightarrow>
                       if \<not> textSent s1
                       then s1\<lparr>res := res s1 @ [Write (text_event ser (JStr (trim (buffer s))))]\<rparr>
                       else s1)))
      else s)"

definition on_close ::
  "json_parse \<Rightarrow> (jsval \<Rightarrow> jstring) \<Rightarrow> tool_spec \<Rightarrow> jstring \<Rightarrow> session \<Rightarrow> exit_code
   \<Rightarrow> session" where
  "on_close parse ser cliTool name s code =
     (let s1 = flush parse ser cliTool s;
          s2 = s1\<lparr>res := res s1 @ [Write DONE, End]\<rparr>
      in if code \<noteq> Code 0 then s2\<lparr>console := console s2 @ [ExitLog name code]\<rparr> else s2)"

definition on_error :: "(jsval \<Rightarrow> jstring) \<Rightarrow> jstring \<Rightarrow> session \<Rightarrow> jstring \<Rightarrow> session" where
  "on_error ser name s msg =
     s\<lparr>console := console s @ [SpawnErrorLog name msg],
       res := res s @
         [Write (error_event ser (js ''Failed to start '' @ name @ js '' CLI. Is it installed?'')),
          Write DONE, End]\<rparr>"

text \<open>\<open>res.on('close', () => { if (!proc.killed) proc.kill('SIGTERM'); })\<close>.\<close>

definition on_res_close :: "session \<Rightarrow> session" where
  "on_res_close s = (if \<not> killed (proc s) then s\<lparr>proc := proc_kill SIGTERM (proc s)\<rparr> else s)"

text \<open>
  The events of a session, in the order the event loop delivers them. \<open>ProcExit\<close> is
  the process ending, which no handler listens to; a \<open>close\<close> event also means the
  process has ended.
\<close>

datatype event =
    StdoutData "8 word list"
  | StderrData "8 word list"
  | ProcExit
  | ProcClose exit_code
  | ProcError jstring
  | ResClose

definition ended :: "session \<Rightarrow> session" where
  "ended s = s\<lparr>proc := (proc s)\<lparr>running := False\<rparr>\<rparr>"

fun step ::
  "json_parse \<Rightarrow> (jsval \<Rightarrow> jstring) \<Rightarrow> tool_spec \<Rightarrow> jstring \<Rightarrow> session \<Rightarrow> event \<Rightarrow> session" where
  "step parse ser cliTool name s (StdoutData data) = on_stdout parse ser cliTool s data"
| "step parse ser cliTool name s (StderrData data) = on_stderr name s data"
| "step parse ser cliTool name s ProcExit = ended s"
| "step parse ser cliTool name s (ProcClose code) = on_close parse ser cliTool name (ended s) code"
| "step parse ser cliTool name s (ProcError msg) = on_error ser name s msg"
| "step parse ser cliTool name s ResClose = on_res_close s"

definition run ::
  "json_parse \<Rightarrow> (jsval \<Rightarrow> jstring) \<Rightarrow> tool_spec \<Rightarrow> jstring \<Rightarrow> session \<Rightarrow> event list
   \<Rightarrow> session" where
  "run parse ser cliTool name s evs = foldl (step parse ser cliTool name) s evs"

text \<open>
  The session as the route creates it: \<open>buffer = ''\<close>, \<open>textSent = false\<close>, nothing
  written, and a process that runs unless the spawn failed.
\<close>

definition new_session :: "bool \<Rightarrow> session" where
  "new_session started =
     \<lparr> buffer = [], textSent = False, res = [], console = [],
       proc = \<lparr> running = started, killed = False, signals = [] \<rparr> \<rparr>"

text \<open>
  The event stream of the response: what was written before \<open>res.end()\<close>, which
  closes the stream.
\<close>

fun stream_of :: "res_call list \<Rightarrow> jstring list" where
  "stream_of [] = []"
| "stream_of (End # cs) = []"
| "stream_of (Write x # cs) = x # stream_of cs"

text \<open>
  The session of a child that \<open>spawn\<close> returned. The server handles the events in
  order until an uncaught exception ends the whole server process, after \<open>k\<close>
  events when \<open>died = Some k\<close>; the events after it are not handled. Neither file
  registers a listener for the \<open>error\<close> event of \<open>proc.stdin\<close>, so a child that does
  not take the prompt (EPIPE) is such an exception.
\<close>

definition serve ::
  "json_parse \<Rightarrow> (jsval \<Rightarrow> jstring) \<Rightarrow> jstring \<Rightarrow> nat option \<Rightarrow> spawned \<Rightarrow> event list
   \<Rightarrow> session" where
  "serve parse ser name died sp evs =
     run parse ser (spawn_tool sp) name (new_session (child_started sp))
       (case died of None \<Rightarrow> evs | Some k \<Rightarrow> take k evs)"

text \<open>
  The event stream a request leaves behind. Only a child has handlers that write
  events; a route that answered with a status, or threw, writes none.
\<close>

fun response_stream ::
  "json_parse \<Rightarrow> (jsval \<Rightarrow> jstring) \<Rightarrow> jstring \<Rightarrow> nat option \<Rightarrow> event list \<Rightarrow> chat_result
   \<Rightarrow> jstring list" where
  "response_stream parse ser name died evs (Spawned sp) =
     stream_of (res (serve parse ser name died sp evs))"
| "response_stream parse ser name died evs r = []"

section \<open>Vocabulary of the statements\<close>

text \<open>
  The prompt layout in the words of the specification: the rendered messages, in
  order, with a blank line between neighbours.
\<close>

fun spec_blank_line_joined :: "jstring list \<Rightarrow> jstring" where
  "spec_blank_line_joined [] = []"
| "spec_blank_line_joined [x] = x"
| "spec_blank_line_joined (x # y # ys) = x @ [nl, nl] @ spec_blank_line_joined (y # ys)"

definition is_rejected :: "chat_result \<Rightarrow> bool" where
  "is_rejected r =
     (case r of Rejected st b \<Rightarrow> True | Crashed h \<Rightarrow> False | SpawnThrew h c a \<Rightarrow> False
      | Spawned sp \<Rightarrow> False)"

text \<open>The command of the process a route started; empty when it started none.\<close>

definition started_command :: "chat_result \<Rightarrow> jstring" where
  "started_command r =
     (case r of Rejected st b \<Rightarrow> [] | Crashed h \<Rightarrow> [] | SpawnThrew h c a \<Rightarrow> []
      | Spawned sp \<Rightarrow> spawn_command sp)"

text \<open>An operating system that starts every command.\<close>

definition every_command_starts :: os_spawn where
  "every_command_starts file args = Started"

text \<open>
  The flag that a \<open>buildArgs\<close> of the sources pushes before the system prompt, by
  the name of its tool: \<open>claude\<close> in both files, \<open>codex\<close> and \<open>gemini\<close> in
  index.mjs.
\<close>

definition dedicated_flag :: "jstring \<Rightarrow> jstring" where
  "dedicated_flag name =
     (if name = js ''claude'' then js ''--system-prompt''
      else if name = js ''codex'' then js ''--instructions''
      else js ''--system-instruction'')"

text \<open>The two events whose handlers end the response.\<close>

fun terminal :: "event \<Rightarrow> bool" where
  "terminal (ProcClose code) = True"
| "terminal (ProcError msg) = True"
| "terminal ev = False"

text \<open>The events that mean the process is gone.\<close>

fun process_ends :: "event \<Rightarrow> bool" where
  "process_ends ProcExit = True"
| "process_ends (ProcClose code) = True"
| "process_ends ev = False"

text \<open>Calls that write events other than the terminal marker and do not end the response.\<close>

definition only_texts :: "res_call list \<Rightarrow> bool" where
  "only_texts cs = list_all (\<lambda>c. case c of Write x \<Rightarrow> x \<noteq> DONE | End \<Rightarrow> False) cs"

text \<open>The \<open>killed\<close> flag is set exactly when the one signal has been sent.\<close>

definition kill_inv :: "child_process \<Rightarrow> bool" where
  "kill_inv p = (if killed p then signals p = [SIGTERM] else signals p = [])"

text \<open>
  Concrete inputs for the evaluations below. \<open>quote_plain\<close> is \<open>JSON.stringify\<close> on
  a string whose characters need no escape. \<open>delta_json t\<close> is the text of a
  \<open>content_block_delta\<close> line carrying \<open>t\<close>, \<open>delta_value t\<close> the value
  \<open>JSON.parse\<close> returns for it, and \<open>parse_delta\<close> agrees with \<open>JSON.parse\<close> on
  the two such lines used here.
\<close>

definition quote_plain :: "jsval \<Rightarrow> jstring" where
  "quote_plain v = (case v of JStr t \<Rightarrow> [dq] @ t @ [dq] | _ \<Rightarrow> js ''null'')"

definition quoted :: "string \<Rightarrow> jstring" where
  "quoted k = [dq] @ js k @ [dq]"

definition delta_head_js :: jstring where
  "delta_head_js =
     js ''{'' @ quoted ''type'' @ js '':'' @ quoted ''content_block_delta'' @ js '',''
     @ quoted ''delta'' @ js '':{'' @ quoted ''text'' @ js '':'' @ [dq]"

definition delta_tail_js :: jstring where
  "delta_tail_js = [dq] @ js ''}}''"

definition delta_json :: "jstring \<Rightarrow> jstring" where
  "delta_json t = delta_head_js @ t @ delta_tail_js"

definition delta_value :: "jstring \<Rightarrow> jsval" where
  "delta_value t =
     JObj [(js ''type'', JStr (js ''content_block_delta'')),
           (js ''delta'', JObj [(js ''text'', JStr t)])]"

definition parse_delta :: json_parse where
  "parse_delta s =
     (if s = delta_json [233] then Some (delta_value [233])
      else if s = delta_json [65533, 65533] then Some (delta_value [65533, 65533])
      else None)"

text \<open>The bytes of an ASCII text.\<close>

definition ascii_bytes :: "jstring \<Rightarrow> 8 word list" where
  "ascii_bytes t = map of_nat t"

definition user_hi :: message where
  "user_hi = \<lparr> role = JStr (js ''user''), content = js ''hi'' \<rparr>"

definition alias_request :: chat_body where
  "alias_request =
     \<lparr> provider = None, tool = Some (js ''codex''), model = None,
       messages = MessageArray [user_hi], systemPrompt = None \<rparr>"

text \<open>
  The body whose \<open>model\<close> is the string of the one character U+0000 and whose
  \<open>messages\<close> hold one user message.
\<close>

definition nul_request :: chat_body where
  "nul_request =
     \<lparr> provider = None, tool = None, model = Some [0],
       messages = MessageArray [user_hi], systemPrompt = None \<rparr>"

text \<open>A request with a system prompt, for the provider named in it.\<close>

definition brief_request :: "string \<Rightarrow> chat_body" where
  "brief_request name =
     \<lparr> provider = Some (js name), tool = None, model = None,
       messages = MessageArray [user_hi], systemPrompt = Some (js ''Be brief'') \<rparr>"

definition constructor_request :: chat_body where
  "constructor_request =
     \<lparr> provider = Some (js ''constructor''), tool = None, model = None,
       messages = MessageArray [user_hi], systemPrompt = None \<rparr>"

section \<open>The prompt\<close>

lemma join_loop_acc: "join_loop sep R (Suc k) xs = R @ concat (map (\<lambda>x. sep @ x) xs)"
  by (induction xs arbitrary: R k) auto

lemma spec_blank_line_joined_Cons:
  "spec_blank_line_joined (x # xs) = x @ concat (map (\<lambda>y. [nl, nl] @ y) xs)"
  by (induction xs arbitrary: x) auto

lemma join_blank_lines: "join xs [nl, nl] = spec_blank_line_joined xs"
proof (cases xs)
  case Nil
  then show ?thesis by (simp add: join_def)
next
  case (Cons x rest)
  then show ?thesis
    by (simp add: join_def join_loop_acc spec_blank_line_joined_Cons)
qed

lemma render_user: "render \<lparr> role = JStr (js ''user''), content = c \<rparr> = js ''User: '' @ c"
  by (simp add: render_def js_def)

text \<open>
  Claim C6. The prompt is the rendered messages, each \<open>User: content\<close> or
  \<open>Assistant: content\<close>, in the order of the input and joined by a blank line; when
  the tool embeds the system prompt and a non-empty one is given, the line
  \<open>System instructions: ...\<close> and a blank line come first.
\<close>

theorem prompt_layout:
  "build_prompt emb sp ms =
     (if emb \<and> truthy_opt sp then js ''System instructions: '' @ or_else sp [] @ [nl, nl] else [])
     @ spec_blank_line_joined (map render ms)
   \<and> (\<forall>m. role m = JStr (js ''user'') \<longrightarrow> render m = js ''User: '' @ content m)
   \<and> (\<forall>m. role m = JStr (js ''assistant'') \<longrightarrow> render m = js ''Assistant: '' @ content m)"
proof -
  have body: "base_prompt ms = spec_blank_line_joined (map render ms)"
    by (simp add: base_prompt_def join_blank_lines)
  have layout: "build_prompt emb sp ms =
     (if emb \<and> truthy_opt sp then js ''System instructions: '' @ or_else sp [] @ [nl, nl] else [])
     @ spec_blank_line_joined (map render ms)"
  proof (cases sp)
    case None
    then show ?thesis by (simp add: build_prompt_def body)
  next
    case (Some p)
    then show ?thesis by (simp add: build_prompt_def body)
  qed
  have labels: "js ''User'' @ js '': '' = js ''User: ''"
    "js ''Assistant'' @ js '': '' = js ''Assistant: ''"
    by (simp_all add: js_def)
  have user: "render m = js ''User: '' @ content m" if "role m = JStr (js ''user'')" for m
    using that labels by (simp add: render_def)
  have "js ''assistant'' \<noteq> js ''user''"
    by (simp add: js_def)
  then have assistant: "render m = js ''Assistant: '' @ content m"
    if "role m = JStr (js ''assistant'')" for m
    using that labels by (simp add: render_def)
  from layout user assistant show ?thesis by blast
qed

theorem prompt_layout_witness:
  "build_prompt True (Some (js ''Be brief''))
     [\<lparr> role = JStr (js ''user''), content = js ''hi'' \<rparr>,
      \<lparr> role = JStr (js ''assistant''), content = js ''yo'' \<rparr>,
      \<lparr> role = JStr (js ''user''), content = js ''hi'' \<rparr>]
   = js ''System instructions: Be brief'' @ [nl, nl] @ js ''User: hi'' @ [nl, nl]
     @ js ''Assistant: yo'' @ [nl, nl] @ js ''User: hi''"
  using prompt_layout [of True "Some (js ''Be brief'')"
      "[\<lparr> role = JStr (js ''user''), content = js ''hi'' \<rparr>,
        \<lparr> role = JStr (js ''assistant''), content = js ''yo'' \<rparr>,
        \<lparr> role = JStr (js ''user''), content = js ''hi'' \<rparr>]"]
  by (simp add: js_def)

text \<open>The prompt a route hands to the tool it starts.\<close>

lemma chat_prompt:
  assumes "messages body = MessageArray ms" and "ms \<noteq> []"
    and "lookup_tool CLI_TOOLS (providerName body) = OwnTool t"
  shows "chat os body
           = start_tool os t (build_prompt (embedSystemPrompt t) (systemPrompt body) ms) body"
  using assms by (simp add: chat_def)

lemma chat_index_prompt:
  assumes "messages body = MessageArray ms" and "ms \<noteq> []"
    and "lookup_tool CLI_TOOLS_index (providerName_index body) = OwnTool t"
  shows "chat_index os body = start_tool os t (build_prompt False (systemPrompt body) ms) body"
  using assms by (cases "systemPrompt body") (simp_all add: chat_index_def build_prompt_def)

lemma start_tool_not_rejected: "\<not> is_rejected (start_tool os t p b)"
  by (simp add: start_tool_def is_rejected_def Let_def split: spawn_outcome.splits)

lemma lookup_claude: "lookup_tool CLI_TOOLS (js ''claude'') = OwnTool claude"
  by (simp add: lookup_tool_def CLI_TOOLS_def js_def)

lemma lookup_codex: "lookup_tool CLI_TOOLS (js ''codex'') = OwnTool codex"
  by (simp add: lookup_tool_def CLI_TOOLS_def js_def)

lemma lookup_claude_index: "lookup_tool CLI_TOOLS_index (js ''claude'') = OwnTool claude_index"
  by (simp add: lookup_tool_def CLI_TOOLS_index_def js_def)

text \<open>
  Claim C10. A message whose role is anything but the string \<open>user\<close> (another
  string, another value, or no role at all) is rendered with the label \<open>Assistant\<close>,
  and neither route looks at roles when it decides to reject: with a non-empty message
  array a request is rejected exactly when the provider name is no property of the
  registry.
\<close>

theorem role_other_than_user:
  assumes "role m \<noteq> JStr (js ''user'')" and "m \<in> set ms"
  shows "render m = js ''Assistant: '' @ content m
     \<and> is_rejected (chat os (body\<lparr>messages := MessageArray ms\<rparr>))
         = (lookup_tool CLI_TOOLS (providerName body) = NoProperty)
     \<and> is_rejected (chat_index os (body\<lparr>messages := MessageArray ms\<rparr>))
         = (lookup_tool CLI_TOOLS_index (providerName_index body) = NoProperty)"
proof -
  from assms(2) have ne: "ms \<noteq> []" by auto
  have r: "render m = js ''Assistant: '' @ content m"
    using assms(1) by (simp add: render_def js_def)
  have p: "providerName (body\<lparr>messages := MessageArray ms\<rparr>) = providerName body"
    by (simp add: providerName_def)
  have q: "providerName_index (body\<lparr>messages := MessageArray ms\<rparr>) = providerName_index body"
    by (simp add: providerName_index_def)
  have a: "is_rejected (chat os (body\<lparr>messages := MessageArray ms\<rparr>))
         = (lookup_tool CLI_TOOLS (providerName body) = NoProperty)"
    using ne by (simp add: chat_def p start_tool_not_rejected split: lookup.splits)
       (simp add: is_rejected_def)
  have b: "is_rejected (chat_index os (body\<lparr>messages := MessageArray ms\<rparr>))
         = (lookup_tool CLI_TOOLS_index (providerName_index body) = NoProperty)"
    using ne by (simp add: chat_index_def q start_tool_not_rejected split: lookup.splits)
       (simp add: is_rejected_def)
  from r a b show ?thesis by simp
qed

theorem role_other_than_user_witness:
  "render \<lparr> role = JStr (js ''system''), content = js ''x'' \<rparr> = js ''Assistant: '' @ js ''x''
   \<and> render \<lparr> role = JUndefined, content = js ''x'' \<rparr> = js ''Assistant: '' @ js ''x''
   \<and> \<not> is_rejected (chat every_command_starts (alias_request\<lparr>messages :=
           MessageArray [\<lparr> role = JStr (js ''system''), content = js ''x'' \<rparr>]\<rparr>))
   \<and> \<not> is_rejected (chat_index every_command_starts (alias_request\<lparr>messages :=
           MessageArray [\<lparr> role = JUndefined, content = js ''x'' \<rparr>]\<rparr>))"
proof -
  have n: "providerName alias_request = js ''codex''"
    by (simp add: providerName_def alias_request_def js_def)
  have i: "providerName_index alias_request = js ''claude''"
    by (simp add: providerName_index_def alias_request_def)
  have d: "js ''system'' \<noteq> js ''user''"
    by (simp add: js_def)
  show ?thesis
    using role_other_than_user [of "\<lparr> role = JStr (js ''system''), content = js ''x'' \<rparr>"
        "[\<lparr> role = JStr (js ''system''), content = js ''x'' \<rparr>]" every_command_starts
        alias_request]
      role_other_than_user [of "\<lparr> role = JUndefined, content = js ''x'' \<rparr>"
        "[\<lparr> role = JUndefined, content = js ''x'' \<rparr>]" every_command_starts
        alias_request]
    by (simp add: n i d lookup_codex lookup_claude_index)
qed

section \<open>The system prompt\<close>

lemma registered_tools:
  assumes "(n, t) \<in> set CLI_TOOLS \<union> set CLI_TOOLS_index"
  obtains "t = claude" | "t = codex" | "t = gemini"
    | "t = claude_index" | "t = codex_index" | "t = gemini_index"
  using assms by (auto simp: CLI_TOOLS_def CLI_TOOLS_index_def)

lemma lookup_own:
  assumes "lookup_tool CLI_TOOLS name = OwnTool t"
  shows "(name = js ''claude'' \<and> t = claude) \<or> (name = js ''codex'' \<and> t = codex)
       \<or> (name = js ''gemini'' \<and> t = gemini)"
  using assms by (simp add: lookup_tool_def CLI_TOOLS_def split: if_splits)

lemma lookup_own_index:
  assumes "lookup_tool CLI_TOOLS_index name = OwnTool t"
  shows "(name = js ''claude'' \<and> t = claude_index) \<or> (name = js ''codex'' \<and> t = codex_index)
       \<or> (name = js ''gemini'' \<and> t = gemini_index)"
  using assms by (simp add: lookup_tool_def CLI_TOOLS_index_def split: if_splits)

lemma dedicated_flags:
  "dedicated_flag (js ''claude'') = js ''--system-prompt''"
  "dedicated_flag (js ''codex'') = js ''--instructions''"
  "dedicated_flag (js ''gemini'') = js ''--system-instruction''"
  by (simp_all add: dedicated_flag_def js_def)

text \<open>What a route that got a child has passed to \<open>spawn\<close> and written to the child.\<close>

lemma start_tool_Spawned:
  assumes "start_tool os t p body = Spawned r"
  shows "spawn_args r = buildArgs t (model body) (systemPrompt body)
                        @ (if inputMode t = Arg then [js ''-p'', p] else [])"
    and "stdin_written r = (if inputMode t = Stdin then Some p else None)"
    and "spawn_command r = command t"
  using assms
  by (auto simp: start_tool_def Let_def split: spawn_outcome.splits if_splits)

text \<open>
  Claim C7. Take a request with a non-empty system prompt whose route gets a child
  from \<open>spawn\<close>. What the child receives is its arguments and, in stdin mode, what
  is written to its standard input. For a tool that does not embed the system prompt
  (claude in part_000, every tool in index.mjs) the arguments are those built without
  a system prompt, then the tool's dedicated flag and the system prompt, then in
  argument mode \<open>-p\<close> and the prompt text; the prompt text is the rendered messages
  alone. For a tool that embeds it (codex and gemini in part_000) the arguments are
  those built without a system prompt, then in argument mode \<open>-p\<close> and the prompt
  text; the prompt text is the header with the system prompt, once, and then the
  rendered messages. In stdin mode the prompt text is what is written to the child.
\<close>

theorem system_prompt_once:
  assumes "messages body = MessageArray ms" and "ms \<noteq> []"
    and "systemPrompt body = Some sp" and "sp \<noteq> []"
  shows "(lookup_tool CLI_TOOLS (providerName body) = OwnTool t \<and> chat os body = Spawned r \<longrightarrow>
            spawn_args r =
              buildArgs t (model body) None
              @ (if embedSystemPrompt t then [] else [dedicated_flag (providerName body), sp])
              @ (if inputMode t = Arg
                 then [js ''-p'',
                       (if embedSystemPrompt t then js ''System instructions: '' @ sp @ [nl, nl]
                        else []) @ base_prompt ms]
                 else [])
          \<and> stdin_written r =
              (if inputMode t = Stdin
               then Some ((if embedSystemPrompt t then js ''System instructions: '' @ sp @ [nl, nl]
                           else []) @ base_prompt ms)
               else None))
       \<and> (lookup_tool CLI_TOOLS_index (providerName_index body) = OwnTool t'
            \<and> chat_index os body = Spawned r' \<longrightarrow>
            spawn_args r' =
              buildArgs t' (model body) None
              @ [dedicated_flag (providerName_index body), sp]
              @ (if inputMode t' = Arg then [js ''-p'', base_prompt ms] else [])
          \<and> stdin_written r' = (if inputMode t' = Stdin then Some (base_prompt ms) else None))"
proof (rule conjI; rule impI)
  assume h: "lookup_tool CLI_TOOLS (providerName body) = OwnTool t \<and> chat os body = Spawned r"
  then have st: "start_tool os t (build_prompt (embedSystemPrompt t) (Some sp) ms) body = Spawned r"
    using chat_prompt [OF assms(1,2), of t os] assms(3) by simp
  note sent = start_tool_Spawned [OF st]
  from h lookup_own [of "providerName body" t]
  consider "providerName body = js ''claude''" "t = claude"
    | "providerName body = js ''codex''" "t = codex"
    | "providerName body = js ''gemini''" "t = gemini"
    by blast
  then show "spawn_args r =
              buildArgs t (model body) None
              @ (if embedSystemPrompt t then [] else [dedicated_flag (providerName body), sp])
              @ (if inputMode t = Arg
                 then [js ''-p'',
                       (if embedSystemPrompt t then js ''System instructions: '' @ sp @ [nl, nl]
                        else []) @ base_prompt ms]
                 else [])
          \<and> stdin_written r =
              (if inputMode t = Stdin
               then Some ((if embedSystemPrompt t then js ''System instructions: '' @ sp @ [nl, nl]
                           else []) @ base_prompt ms)
               else None)"
  proof cases
    case 1
    then show ?thesis
      using sent assms(3,4)
      by (simp add: claude_def claude_buildArgs_def build_prompt_def dedicated_flags)
  next
    case 2
    then show ?thesis
      using sent assms(3,4)
      by (simp add: codex_def codex_buildArgs_def build_prompt_def)
  next
    case 3
    then show ?thesis
      using sent assms(3,4)
      by (simp add: gemini_def gemini_buildArgs_def build_prompt_def)
  qed
next
  assume h: "lookup_tool CLI_TOOLS_index (providerName_index body) = OwnTool t'
             \<and> chat_index os body = Spawned r'"
  then have st: "start_tool os t' (base_prompt ms) body = Spawned r'"
    using chat_index_prompt [OF assms(1,2), of t' os] by (simp add: build_prompt_def assms(3))
  note sent = start_tool_Spawned [OF st]
  from h lookup_own_index [of "providerName_index body" t']
  consider "providerName_index body = js ''claude''" "t' = claude_index"
    | "providerName_index body = js ''codex''" "t' = codex_index"
    | "providerName_index body = js ''gemini''" "t' = gemini_index"
    by blast
  then show "spawn_args r' =
              buildArgs t' (model body) None
              @ [dedicated_flag (providerName_index body), sp]
              @ (if inputMode t' = Arg then [js ''-p'', base_prompt ms] else [])
          \<and> stdin_written r' = (if inputMode t' = Stdin then Some (base_prompt ms) else None)"
  proof cases
    case 1
    then show ?thesis
      using sent assms(3,4)
      by (simp add: claude_index_def claude_buildArgs_def dedicated_flags)
  next
    case 2
    then show ?thesis
      using sent assms(3,4)
      by (simp add: codex_index_def codex_buildArgs_index_def dedicated_flags)
  next
    case 3
    then show ?thesis
      using sent assms(3,4)
      by (simp add: gemini_index_def gemini_buildArgs_index_def dedicated_flags)
  qed
qed

lemma base_prompt_user_hi: "base_prompt [user_hi] = js ''User: '' @ js ''hi''"
  by (simp add: base_prompt_def join_def render_def user_hi_def js_def)

lemma brief_request_fields:
  "messages (brief_request name) = MessageArray [user_hi]"
  "systemPrompt (brief_request name) = Some (js ''Be brief'')"
  "model (brief_request name) = None"
  "providerName (brief_request ''claude'') = js ''claude''"
  "providerName (brief_request ''gemini'') = js ''gemini''"
  "providerName_index (brief_request ''gemini'') = js ''gemini''"
  by (simp_all add: brief_request_def providerName_def providerName_index_def js_def)

lemma lookup_gemini:
  "lookup_tool CLI_TOOLS (js ''gemini'') = OwnTool gemini"
  "lookup_tool CLI_TOOLS_index (js ''gemini'') = OwnTool gemini_index"
  by (simp_all add: lookup_tool_def CLI_TOOLS_def CLI_TOOLS_index_def js_def)

lemma brief_request_gets_child:
  "\<exists>r. chat every_command_starts (brief_request ''claude'') = Spawned r"
  "\<exists>r. chat every_command_starts (brief_request ''gemini'') = Spawned r"
  "\<exists>r. chat_index every_command_starts (brief_request ''gemini'') = Spawned r"
  by (simp_all add: chat_def chat_index_def brief_request_fields lookup_claude lookup_gemini
        start_tool_def Let_def spawn_def every_command_starts_def)
     (simp_all add: claude_def gemini_def gemini_index_def claude_buildArgs_def
        gemini_buildArgs_def gemini_buildArgs_index_def build_prompt_def base_prompt_user_hi
        has_nul_def js_def nl_def)

theorem system_prompt_once_witness:
  "(\<exists>r. chat every_command_starts (brief_request ''claude'') = Spawned r
        \<and> spawn_args r = [js ''-p'', js ''--output-format'', js ''stream-json'', js ''--verbose'',
                          js ''--system-prompt'', js ''Be brief'']
        \<and> stdin_written r = Some (js ''User: '' @ js ''hi''))
   \<and> (\<exists>r. chat every_command_starts (brief_request ''gemini'') = Spawned r
        \<and> spawn_args r = [js ''-p'', js ''System instructions: '' @ js ''Be brief'' @ [nl, nl]
                                    @ js ''User: '' @ js ''hi'']
        \<and> stdin_written r = None)
   \<and> (\<exists>r. chat_index every_command_starts (brief_request ''gemini'') = Spawned r
        \<and> spawn_args r = [js ''--output-format'', js ''stream-json'',
                          js ''--system-instruction'', js ''Be brief'',
                          js ''-p'', js ''User: '' @ js ''hi'']
        \<and> stdin_written r = None)"
proof -
  have ne: "[user_hi] \<noteq> []" "js ''Be brief'' \<noteq> []"
    by (simp_all add: js_def)
  obtain a where a: "chat every_command_starts (brief_request ''claude'') = Spawned a"
    using brief_request_gets_child(1) by blast
  obtain g where g: "chat every_command_starts (brief_request ''gemini'') = Spawned g"
    using brief_request_gets_child(2) by blast
  obtain i where i: "chat_index every_command_starts (brief_request ''gemini'') = Spawned i"
    using brief_request_gets_child(3) by blast
  have "spawn_args a = [js ''-p'', js ''--output-format'', js ''stream-json'', js ''--verbose'',
                        js ''--system-prompt'', js ''Be brief'']
        \<and> stdin_written a = Some (js ''User: '' @ js ''hi'')"
    using system_prompt_once [where body = "brief_request ''claude''" and ms = "[user_hi]"
        and sp = "js ''Be brief''" and t = claude and os = every_command_starts and r = a]
      a ne
    by (simp add: brief_request_fields lookup_claude claude_def claude_buildArgs_def
          dedicated_flags base_prompt_user_hi)
  moreover have "spawn_args g = [js ''-p'', js ''System instructions: '' @ js ''Be brief''
                                   @ [nl, nl] @ js ''User: '' @ js ''hi'']
        \<and> stdin_written g = None"
    using system_prompt_once [where body = "brief_request ''gemini''" and ms = "[user_hi]"
        and sp = "js ''Be brief''" and t = gemini and os = every_command_starts and r = g]
      g ne
    by (simp add: brief_request_fields lookup_gemini gemini_def gemini_buildArgs_def
          base_prompt_user_hi)
  moreover have "spawn_args i = [js ''--output-format'', js ''stream-json'',
                          js ''--system-instruction'', js ''Be brief'',
                          js ''-p'', js ''User: '' @ js ''hi'']
        \<and> stdin_written i = None"
    using system_prompt_once [where body = "brief_request ''gemini''" and ms = "[user_hi]"
        and sp = "js ''Be brief''" and t' = gemini_index and os = every_command_starts and r' = i]
      i ne
    by (simp add: brief_request_fields lookup_gemini gemini_index_def gemini_buildArgs_index_def
          dedicated_flags base_prompt_user_hi)
  ultimately show ?thesis
    using a g i by blast
qed

section \<open>The provider name\<close>

lemma providerName_default:
  "provider body = None \<Longrightarrow> tool body = None \<Longrightarrow> providerName body = js ''claude''"
  by (simp add: providerName_def)

lemma providerName_alias:
  "provider body = None \<Longrightarrow> tool body = Some t \<Longrightarrow> t \<noteq> [] \<Longrightarrow> providerName body = t"
  by (simp add: providerName_def)

lemma providerName_index_default:
  "provider body = None \<Longrightarrow> providerName_index body = js ''claude''"
  by (simp add: providerName_index_def)

text \<open>
  Claim C8. Both routes default to \<open>claude\<close>. The route of part_000 takes \<open>tool\<close>
  as the provider when \<open>provider\<close> is absent (the three lemmas above); the route of
  index.mjs does not read \<open>tool\<close>: for a body with \<open>tool = codex\<close> and no
  \<open>provider\<close>, where every command starts, part_000 starts \<open>codex\<close> and
  index.mjs starts \<open>claude\<close>.
\<close>

theorem tool_alias_not_read_by_index:
  "providerName alias_request = js ''codex''
   \<and> providerName_index alias_request = js ''claude''
   \<and> started_command (chat every_command_starts alias_request) = js ''codex''
   \<and> started_command (chat_index every_command_starts alias_request) = js ''claude''"
proof -
  have a: "providerName alias_request = js ''codex''"
    by (simp add: providerName_def alias_request_def js_def)
  have b: "providerName_index alias_request = js ''claude''"
    by (simp add: providerName_index_def alias_request_def)
  have m: "messages alias_request = MessageArray [user_hi]"
    by (simp add: alias_request_def)
  have f: "model alias_request = None" "systemPrompt alias_request = None"
    by (simp_all add: alias_request_def)
  have n: "\<not> has_nul (js ''codex'')" "\<not> has_nul (js ''claude'')"
    "\<not> list_ex has_nul (codex_buildArgs None None)"
    "\<not> list_ex has_nul (claude_buildArgs None None)"
    by (simp_all add: has_nul_def js_def codex_buildArgs_def claude_buildArgs_def)
  have c: "started_command (chat every_command_starts alias_request) = js ''codex''"
    by (simp add: chat_def a m lookup_codex start_tool_def Let_def codex_def started_command_def
          spawn_def n every_command_starts_def f)
  have d: "started_command (chat_index every_command_starts alias_request) = js ''claude''"
    by (simp add: chat_index_def b m lookup_claude_index start_tool_def Let_def claude_index_def
          started_command_def spawn_def n every_command_starts_def f)
  from a b c d show ?thesis by simp
qed

section \<open>Validation\<close>

lemma bad_messages_rejected:
  assumes "messages body = Missing \<or> messages body = NotAnArray \<or> messages body = MessageArray []"
  shows "chat os body = Rejected 400 messages_required"
    and "chat_index os body = Rejected 400 messages_required"
  using assms by (auto simp: chat_def chat_index_def)

lemma unknown_name_rejected:
  assumes "messages body = MessageArray ms" and "ms \<noteq> []"
    and "lookup_tool CLI_TOOLS (providerName body) = NoProperty"
  shows "chat os body =
           Rejected 400 (JObj [(js ''error'', JStr (js ''Unknown provider: '' @ providerName body)),
              (js ''available'', JArr [JStr (js ''claude''), JStr (js ''codex''), JStr (js ''gemini'')])])"
  using assms by (simp add: chat_def unknown_provider_def Object_keys_def CLI_TOOLS_def)

lemma lookup_constructor:
  "lookup_tool CLI_TOOLS (js ''constructor'') = InheritedProperty"
  "lookup_tool CLI_TOOLS_index (js ''constructor'') = InheritedProperty"
  by (simp_all add: lookup_tool_def CLI_TOOLS_def CLI_TOOLS_index_def
        Object_prototype_properties_def js_def)

text \<open>
  Claim C5. Missing, non-array and empty \<open>messages\<close> are answered with status 400, and
  so is a provider name that is no property of the registry object, with all registered
  names in the body (the lemmas above). The name \<open>constructor\<close> is not registered, yet
  the lookup finds the property inherited from \<open>Object.prototype\<close>: the request is not
  answered with 400; both routes flush the streaming headers and then fail, without
  calling \<open>spawn\<close>, whatever the operating system would do.
\<close>

theorem inherited_name_not_rejected:
  "map_of CLI_TOOLS (providerName constructor_request) = None
   \<and> chat os constructor_request = Crashed sse_headers
   \<and> map_of CLI_TOOLS_index (providerName_index constructor_request) = None
   \<and> chat_index os constructor_request = Crashed sse_headers"
proof -
  have a: "providerName constructor_request = js ''constructor''"
    by (simp add: providerName_def constructor_request_def js_def)
  have b: "providerName_index constructor_request = js ''constructor''"
    by (simp add: providerName_index_def constructor_request_def)
  have m: "messages constructor_request = MessageArray [user_hi]"
    by (simp add: constructor_request_def)
  have c: "map_of CLI_TOOLS (js ''constructor'') = None"
    by (simp add: CLI_TOOLS_def js_def)
  have d: "map_of CLI_TOOLS_index (js ''constructor'') = None"
    by (simp add: CLI_TOOLS_index_def js_def)
  show ?thesis
    by (simp add: chat_def chat_index_def a b m c d lookup_constructor)
qed

section \<open>What the handlers write\<close>

lemma res_foldl_emit:
  "res (foldl (emit ser) s ems) = res s @ map (\<lambda>t. Write (text_event ser t)) ems"
  by (induction ems arbitrary: s) (auto simp: emit_def)

lemma textSent_foldl_emit:
  "textSent (foldl (emit ser) s ems) = (textSent s \<or> ems \<noteq> [])"
  by (induction ems arbitrary: s) (auto simp: emit_def)

lemma proc_foldl_emit: "proc (foldl (emit ser) s ems) = proc s"
  by (induction ems arbitrary: s) (auto simp: emit_def)

lemma trim_id:
  assumes "l \<noteq> []" and "\<not> is_white_space (hd l)" and "\<not> is_white_space (last l)"
  shows "trim l = l"
proof -
  have a: "dropWhile is_white_space l = l"
    using assms(1,2) by (cases l) auto
  have "\<not> is_white_space (hd (rev l))"
    using assms(1,3) by (simp add: hd_rev)
  then have b: "dropWhile is_white_space (rev l) = rev l"
    using assms(1) by (cases "rev l") auto
  show ?thesis by (simp add: trim_def a b)
qed

lemma registered_parser_syntax_error:
  assumes "(n, t) \<in> set CLI_TOOLS \<union> set CLI_TOOLS_index"
    and "parseStream t = Some p" and "parse line = None"
  shows "p parse line = ([], Threw)"
  using assms(1)
proof (cases rule: registered_tools)
  case 1 with assms(2,3) show ?thesis by (auto simp: claude_def claude_parseStream_def)
next
  case 2 with assms(2,3) show ?thesis by (auto simp: codex_def codex_parseStream_def)
next
  case 3 with assms(2) show ?thesis by (simp add: gemini_def)
next
  case 4 with assms(2,3) show ?thesis
    by (auto simp: claude_index_def claude_parseStream_index_def)
next
  case 5 with assms(2,3) show ?thesis
    by (auto simp: codex_index_def codex_parseStream_index_def)
next
  case 6 with assms(2,3) show ?thesis
    by (auto simp: gemini_index_def gemini_parseStream_index_def)
qed

text \<open>
  Claim C3. A line that \<open>JSON.parse\<close> rejects, handed to the parser of any registered
  tool: when the trimmed line is not empty and starts with neither \<open>{\<close> nor \<open>[\<close>,
  exactly one text event is written, carrying the trimmed line and a newline, and
  \<open>textSent\<close> is set; otherwise the session is unchanged and nothing is written.
\<close>

theorem unparsable_line_fallback:
  assumes "(n, t) \<in> set CLI_TOOLS \<union> set CLI_TOOLS_index"
    and "parseStream t = Some p" and "parse line = None"
  shows "handle_line parse ser p s line =
           (if trim line \<noteq> [] \<and> \<not> startsWith (trim line) (js ''{'')
               \<and> \<not> startsWith (trim line) (js ''['')
            then s\<lparr>textSent := True,
                   res := res s @ [Write (text_event ser (JStr (trim line @ [nl])))]\<rparr>
            else s)"
proof -
  have "p parse line = ([], Threw)"
    using assms by (rule registered_parser_syntax_error [of n t p parse line])
  then show ?thesis
    by (simp add: handle_line_def emit_def Let_def)
qed

theorem unparsable_line_fallback_witness:
  "handle_line (\<lambda>l. None) quote_plain claude_parseStream (new_session True) (js '' warn '')
     = (new_session True)\<lparr>textSent := True,
          res := res (new_session True)
                 @ [Write (text_event quote_plain (JStr (js ''warn'' @ [nl])))]\<rparr>
   \<and> handle_line (\<lambda>l. None) quote_plain claude_parseStream (new_session True) (js ''{bad'')
     = new_session True"
proof -
  have c: "(js ''claude'', claude) \<in> set CLI_TOOLS \<union> set CLI_TOOLS_index"
    by (simp add: CLI_TOOLS_def)
  have p: "parseStream claude = Some claude_parseStream"
    by (simp add: claude_def)
  have t1: "trim (js '' warn '') = js ''warn''"
    by (simp add: trim_def js_def is_white_space_def)
  have t2: "trim (js ''{bad'') = js ''{bad''"
    by (simp add: trim_def js_def is_white_space_def)
  have s1: "js ''warn'' \<noteq> []" "\<not> startsWith (js ''warn'') (js ''{'')"
    "\<not> startsWith (js ''warn'') (js ''['')" "startsWith (js ''{bad'') (js ''{'')"
    by (simp_all add: startsWith_def js_def)
  show ?thesis
    using unparsable_line_fallback [OF c p, of "\<lambda>l. None" "js '' warn ''" quote_plain
        "new_session True"]
      unparsable_line_fallback [OF c p, of "\<lambda>l. None" "js ''{bad''" quote_plain
        "new_session True"]
    by (simp add: t1 t2 s1)
qed

text \<open>
  Claim C4. At process exit a tool with a parser runs it once on the buffer when the
  trimmed buffer is not empty: the texts it emitted are written in order; the trimmed
  buffer itself is written after them exactly when the parser threw, no text had been
  sent before and the parser emitted none. The terminal marker and the end of the
  response follow. A buffer that is empty after trimming is not parsed.
\<close>

theorem residual_flush:
  assumes "parseStream cliTool = Some p" and "p parse (buffer s) = (ems, c)"
  shows "res (on_close parse ser cliTool name s code) =
           res s
           @ (if trim (buffer s) = [] then []
              else map (\<lambda>t. Write (text_event ser t)) ems
                   @ (if c = Threw \<and> \<not> textSent s \<and> ems = []
                      then [Write (text_event ser (JStr (trim (buffer s))))] else []))
           @ [Write DONE, End]"
proof -
  have "res (flush parse ser cliTool s) =
           res s
           @ (if trim (buffer s) = [] then []
              else map (\<lambda>t. Write (text_event ser t)) ems
                   @ (if c = Threw \<and> \<not> textSent s \<and> ems = []
                      then [Write (text_event ser (JStr (trim (buffer s))))] else []))"
    using assms
    by (cases c) (auto simp: flush_def Let_def res_foldl_emit textSent_foldl_emit)
  then show ?thesis
    by (simp add: on_close_def Let_def)
qed

lemma claude_delta:
  assumes "t \<noteq> []" and "parse (delta_json t) = Some (delta_value t)"
  shows "claude_parseStream parse (delta_json t) = ([JStr t], Returned JUndefined)"
  using assms by (simp add: claude_parseStream_def delta_value_def nullish_def js_def)

lemma trim_delta_json: "trim (delta_json t) = delta_json t"
  by (rule trim_id)
     (simp_all add: delta_json_def delta_head_js_def delta_tail_js_def js_def
        is_white_space_def quoted_def dq_def)

lemma parse_delta_1: "parse_delta (delta_json [233]) = Some (delta_value [233])"
  by (simp add: parse_delta_def)

lemma parse_delta_2:
  "parse_delta (delta_json [65533, 65533]) = Some (delta_value [65533, 65533])"
  by (simp add: parse_delta_def delta_json_def)

lemma parse_delta_partial: "parse_delta (js ''partial'') = None"
  by (simp add: parse_delta_def delta_json_def delta_head_js_def js_def)

theorem residual_flush_witness:
  "res (on_close parse_delta quote_plain claude (js ''claude'')
          ((new_session True)\<lparr>buffer := js ''partial''\<rparr>) (Code 0))
     = [Write (text_event quote_plain (JStr (js ''partial''))), Write DONE, End]
   \<and> res (on_close parse_delta quote_plain claude (js ''claude'')
          ((new_session True)\<lparr>buffer := delta_json [233]\<rparr>) (Code 0))
     = [Write (text_event quote_plain (JStr [233])), Write DONE, End]"
proof -
  have p: "parseStream claude = Some claude_parseStream"
    by (simp add: claude_def)
  have t: "trim (js ''partial'') = js ''partial''"
    by (simp add: trim_def js_def is_white_space_def)
  have n: "js ''partial'' \<noteq> []" "delta_json [233] \<noteq> []"
    by (simp_all add: js_def delta_json_def delta_head_js_def)
  have a: "claude_parseStream parse_delta
             (buffer ((new_session True)\<lparr>buffer := js ''partial''\<rparr>)) = ([], Threw)"
    by (simp add: claude_parseStream_def parse_delta_partial)
  have b: "claude_parseStream parse_delta
             (buffer ((new_session True)\<lparr>buffer := delta_json [233]\<rparr>))
           = ([JStr [233]], Returned JUndefined)"
    using claude_delta [of "[233]" parse_delta] by (simp add: parse_delta_1)
  show ?thesis
    using residual_flush [OF p a, of quote_plain "js ''claude''" "Code 0"]
      residual_flush [OF p b, of quote_plain "js ''claude''" "Code 0"]
    by (simp add: t n trim_delta_json new_session_def)
qed

section \<open>The terminal marker\<close>

lemma text_event_not_DONE: "text_event ser v \<noteq> DONE"
  by (simp add: text_event_def DONE_def stringify_field_def js_def)

lemma error_event_not_DONE: "error_event ser m \<noteq> DONE"
  by (simp add: error_event_def DONE_def stringify_field_def js_def)

lemma only_texts_append: "only_texts (xs @ ys) = (only_texts xs \<and> only_texts ys)"
  by (simp add: only_texts_def)

lemma only_texts_Nil: "only_texts []"
  by (simp add: only_texts_def)

lemma only_texts_map_text: "only_texts (map (\<lambda>t. Write (text_event ser t)) ems)"
  by (induction ems) (auto simp: only_texts_def text_event_not_DONE)

lemma only_texts_text: "only_texts [Write (text_event ser v)]"
  by (simp add: only_texts_def text_event_not_DONE)

lemma only_texts_error: "only_texts [Write (error_event ser m)]"
  by (simp add: only_texts_def error_event_not_DONE)

lemmas only_texts_simps =
  only_texts_append only_texts_Nil only_texts_map_text only_texts_text only_texts_error

lemma handle_line_res:
  "\<exists>ws. res (handle_line parse ser p s line) = res s @ ws \<and> only_texts ws"
proof (cases "trim line = []")
  case True
  then show ?thesis by (simp add: handle_line_def only_texts_simps)
next
  case False
  obtain ems c where pc: "p parse line = (ems, c)" by (cases "p parse line")
  show ?thesis
    using False pc
    by (cases c) (auto simp: handle_line_def Let_def emit_def res_foldl_emit only_texts_simps)
qed

lemma handle_line_proc: "proc (handle_line parse ser p s line) = proc s"
proof (cases "trim line = []")
  case True
  then show ?thesis by (simp add: handle_line_def)
next
  case False
  obtain ems c where pc: "p parse line = (ems, c)" by (cases "p parse line")
  show ?thesis
    using False pc
    by (cases c) (auto simp: handle_line_def Let_def emit_def proc_foldl_emit)
qed

lemma foldl_handle_line_res:
  "\<exists>ws. res (foldl (handle_line parse ser p) s ls) = res s @ ws \<and> only_texts ws"
proof (induction ls arbitrary: s)
  case Nil
  then show ?case by (simp add: only_texts_simps)
next
  case (Cons l ls)
  obtain w1 where w1: "res (handle_line parse ser p s l) = res s @ w1" "only_texts w1"
    using handle_line_res by blast
  obtain w2 where w2:
    "res (foldl (handle_line parse ser p) (handle_line parse ser p s l) ls)
       = res (handle_line parse ser p s l) @ w2" "only_texts w2"
    using Cons.IH by blast
  show ?case
    using w1 w2 by (intro exI [of _ "w1 @ w2"]) (simp add: only_texts_simps)
qed

lemma foldl_handle_line_proc: "proc (foldl (handle_line parse ser p) s ls) = proc s"
  by (induction ls arbitrary: s) (auto simp: handle_line_proc)

lemma on_stdout_res:
  "\<exists>ws. res (on_stdout parse ser t s data) = res s @ ws \<and> only_texts ws"
proof (cases "parseStream t")
  case None
  then show ?thesis by (simp add: on_stdout_def feed_def emit_def only_texts_simps)
next
  case (Some p)
  obtain ws where
    "res (foldl (handle_line parse ser p)
            (s\<lparr>buffer := pop_or_empty (split_nl (buffer s @ Buffer_toString data))\<rparr>)
            (butlast (split_nl (buffer s @ Buffer_toString data))))
      = res (s\<lparr>buffer := pop_or_empty (split_nl (buffer s @ Buffer_toString data))\<rparr>) @ ws"
    "only_texts ws"
    using foldl_handle_line_res by blast
  then show ?thesis
    using Some by (auto simp: on_stdout_def feed_def Let_def)
qed

lemma on_stdout_proc: "proc (on_stdout parse ser t s data) = proc s"
  by (cases "parseStream t")
     (auto simp: on_stdout_def feed_def emit_def Let_def foldl_handle_line_proc)

lemma flush_res: "\<exists>ws. res (flush parse ser t s) = res s @ ws \<and> only_texts ws"
proof (cases "parseStream t")
  case None
  then show ?thesis by (simp add: flush_def only_texts_simps)
next
  case (Some p)
  obtain ems c where pc: "p parse (buffer s) = (ems, c)" by (cases "p parse (buffer s)")
  show ?thesis
    using Some pc by (cases c) (auto simp: flush_def Let_def res_foldl_emit only_texts_simps)
qed

lemma flush_proc: "proc (flush parse ser t s) = proc s"
proof (cases "parseStream t")
  case None
  then show ?thesis by (simp add: flush_def)
next
  case (Some p)
  obtain ems c where pc: "p parse (buffer s) = (ems, c)" by (cases "p parse (buffer s)")
  show ?thesis
    using Some pc by (cases c) (auto simp: flush_def Let_def proc_foldl_emit)
qed

lemma step_res_terminal:
  assumes "terminal ev"
  shows "\<exists>ws. res (step parse ser t name s ev) = res s @ ws @ [Write DONE, End]
           \<and> only_texts ws"
proof (cases ev)
  case (ProcClose code)
  obtain ws where "res (flush parse ser t (ended s)) = res (ended s) @ ws" "only_texts ws"
    using flush_res by blast
  then show ?thesis
    using ProcClose by (auto simp: on_close_def Let_def ended_def)
next
  case (ProcError msg)
  then show ?thesis
    by (auto simp: on_error_def only_texts_simps intro!: exI [of _ "[Write (error_event ser _)]"])
qed (use assms in auto)

lemma step_res_other:
  assumes "\<not> terminal ev"
  shows "\<exists>ws. res (step parse ser t name s ev) = res s @ ws \<and> only_texts ws"
proof (cases ev)
  case (StdoutData data)
  then show ?thesis using on_stdout_res by simp
next
  case (StderrData data)
  then show ?thesis by (simp add: on_stderr_def Let_def only_texts_simps)
next
  case ProcExit
  then show ?thesis by (simp add: ended_def only_texts_simps)
next
  case ResClose
  then show ?thesis by (simp add: on_res_close_def only_texts_simps)
qed (use assms in auto)

lemma step_res_grows: "\<exists>ws. res (step parse ser t name s ev) = res s @ ws"
proof (cases "terminal ev")
  case True
  then show ?thesis using step_res_terminal by blast
next
  case False
  then show ?thesis using step_res_other by blast
qed

lemma run_Cons:
  "run parse ser t name s (ev # evs) = run parse ser t name (step parse ser t name s ev) evs"
  by (simp add: run_def)

lemma run_append:
  "run parse ser t name s (xs @ ys) = run parse ser t name (run parse ser t name s xs) ys"
  by (simp add: run_def)

lemma run_res_grows: "\<exists>ws. res (run parse ser t name s evs) = res s @ ws"
proof (induction evs arbitrary: s)
  case Nil
  then show ?case by (simp add: run_def)
next
  case (Cons ev evs)
  obtain w1 where w1: "res (step parse ser t name s ev) = res s @ w1"
    using step_res_grows by blast
  obtain w2 where w2: "res (run parse ser t name (step parse ser t name s ev) evs)
      = res (step parse ser t name s ev) @ w2"
    using Cons.IH by blast
  show ?case using w1 w2 by (simp add: run_Cons)
qed

lemma only_texts_writes:
  "only_texts ws \<Longrightarrow> \<exists>xs. ws = map Write xs \<and> DONE \<notin> set xs"
proof (induction ws)
  case Nil
  then show ?case by simp
next
  case (Cons w ws)
  then obtain x where x: "w = Write x" "x \<noteq> DONE" and t: "only_texts ws"
    by (cases w) (auto simp: only_texts_def)
  from Cons.IH [OF t] obtain xs where "ws = map Write xs" "DONE \<notin> set xs" by blast
  then show ?case
    using x by (intro exI [of _ "x # xs"]) simp
qed

lemma stream_of_closed: "stream_of (map Write xs @ [Write d, End] @ cs) = xs @ [d]"
  by (induction xs) auto

lemma run_stream:
  assumes "only_texts (res s)" and "\<exists>ev \<in> set evs. terminal ev"
  shows "\<exists>xs. stream_of (res (run parse ser t name s evs)) = xs @ [DONE] \<and> DONE \<notin> set xs"
  using assms
proof (induction evs arbitrary: s)
  case Nil
  then show ?case by simp
next
  case (Cons ev evs)
  let ?s1 = "step parse ser t name s ev"
  show ?case
  proof (cases "terminal ev")
    case True
    obtain ws where ws: "res ?s1 = res s @ ws @ [Write DONE, End]" "only_texts ws"
      using step_res_terminal [OF True] by blast
    obtain more where more: "res (run parse ser t name ?s1 evs) = res ?s1 @ more"
      using run_res_grows by blast
    have "only_texts (res s @ ws)"
      using Cons.prems(1) ws(2) by (simp add: only_texts_append)
    from only_texts_writes [OF this] obtain xs where
      xs: "res s @ ws = map Write xs" "DONE \<notin> set xs" by auto
    have "res (run parse ser t name ?s1 evs) = map Write xs @ [Write DONE, End] @ more"
      using more ws(1) xs(1) by simp
    then have "stream_of (res (run parse ser t name ?s1 evs)) = xs @ [DONE]"
      by (simp only: stream_of_closed)
    then show ?thesis using xs(2) by (auto simp: run_Cons)
  next
    case False
    obtain ws where ws: "res ?s1 = res s @ ws" "only_texts ws"
      using step_res_other [OF False] by blast
    have t1: "only_texts (res ?s1)"
      using ws Cons.prems(1) by (simp add: only_texts_append)
    have "\<exists>ev \<in> set evs. terminal ev" using Cons.prems(2) False by auto
    from Cons.IH [OF t1 this] show ?thesis by (simp add: run_Cons)
  qed
qed

text \<open>
  Take any session, of any tool, and any sequence of handled events in which the
  process closes or fails to start at least once (alone, after output, with a residual
  buffer to flush, or after the client has closed the response). The event stream of
  the response, that is, what is written up to \<open>res.end()\<close>, holds the terminal marker
  exactly once, as its last event.
\<close>

theorem one_terminal_marker:
  assumes "\<exists>ev \<in> set evs. terminal ev"
  shows "count_list (stream_of (res (run parse ser t name (new_session started) evs))) DONE = 1
       \<and> last (stream_of (res (run parse ser t name (new_session started) evs))) = DONE"
proof -
  have "only_texts (res (new_session started))"
    by (simp add: new_session_def only_texts_Nil)
  from run_stream [OF this assms] obtain xs where
    "stream_of (res (run parse ser t name (new_session started) evs)) = xs @ [DONE]"
    "DONE \<notin> set xs" by blast
  then show ?thesis by (simp add: count_list_0_iff)
qed

theorem one_terminal_marker_witness:
  "(\<exists>ev \<in> set [ResClose, ProcError (js ''spawn claude ENOENT''), ProcClose (Code (- 2))].
       terminal ev)
   \<and> count_list (stream_of (res (run parse_delta quote_plain claude (js ''claude'')
         (new_session False)
         [ResClose, ProcError (js ''spawn claude ENOENT''), ProcClose (Code (- 2))]))) DONE = 1
   \<and> last (stream_of (res (run parse_delta quote_plain claude (js ''claude'')
         (new_session False)
         [ResClose, ProcError (js ''spawn claude ENOENT''), ProcClose (Code (- 2))]))) = DONE"
proof -
  have h: "\<exists>ev \<in> set [ResClose, ProcError (js ''spawn claude ENOENT''), ProcClose (Code (- 2))].
             terminal ev"
    by simp
  show ?thesis
    using h one_terminal_marker [OF h, of parse_delta quote_plain claude "js ''claude''" False]
    by blast
qed

text \<open>
  The calls themselves, when both process events fire: each of the two handlers writes
  the marker and ends the response, the second after the response has ended.
\<close>

lemma both_terminal_handlers:
  "res (run parse ser t name (new_session False) [ProcError msg, ProcClose code])
     = [Write (error_event ser (js ''Failed to start '' @ name @ js '' CLI. Is it installed?'')),
        Write DONE, End, Write DONE, End]"
  by (simp add: run_def on_error_def on_close_def flush_def ended_def new_session_def trim_def
        Let_def)

text \<open>
  With one terminal event in the whole session the calls themselves hold the marker
  once.
\<close>

lemma run_res_other:
  assumes "\<forall>ev \<in> set evs. \<not> terminal ev"
  shows "\<exists>ws. res (run parse ser t name s evs) = res s @ ws \<and> only_texts ws"
  using assms
proof (induction evs arbitrary: s)
  case Nil
  then show ?case by (simp add: run_def only_texts_Nil)
next
  case (Cons ev evs)
  have nt: "\<not> terminal ev" and rest: "\<forall>e \<in> set evs. \<not> terminal e"
    using Cons.prems by simp_all
  obtain w1 where w1: "res (step parse ser t name s ev) = res s @ w1" "only_texts w1"
    using step_res_other [OF nt] by blast
  obtain w2 where w2: "res (run parse ser t name (step parse ser t name s ev) evs)
      = res (step parse ser t name s ev) @ w2" "only_texts w2"
    using Cons.IH [OF rest] by blast
  show ?case
    using w1 w2 by (intro exI [of _ "w1 @ w2"]) (simp add: run_Cons only_texts_append)
qed

lemma only_texts_no_marker: "only_texts ws \<Longrightarrow> count_list ws (Write DONE) = 0"
  by (induction ws) (auto simp: only_texts_def split: res_call.splits)

lemma one_terminal_event_raw_writes:
  assumes "\<forall>ev \<in> set pre. \<not> terminal ev" and "terminal ev"
    and "\<forall>ev \<in> set post. \<not> terminal ev"
  shows "count_list (res (run parse ser t name (new_session started) (pre @ ev # post)))
           (Write DONE) = 1"
proof -
  let ?s0 = "new_session started"
  let ?s1 = "run parse ser t name ?s0 pre"
  let ?s2 = "step parse ser t name ?s1 ev"
  obtain w1 where w1: "res ?s1 = res ?s0 @ w1" "only_texts w1"
    using run_res_other [OF assms(1)] by blast
  obtain w2 where w2: "res ?s2 = res ?s1 @ w2 @ [Write DONE, End]" "only_texts w2"
    using step_res_terminal [OF assms(2)] by blast
  obtain w3 where w3: "res (run parse ser t name ?s2 post) = res ?s2 @ w3" "only_texts w3"
    using run_res_other [OF assms(3)] by blast
  have "res (run parse ser t name ?s0 (pre @ ev # post)) = w1 @ w2 @ [Write DONE, End] @ w3"
    using w1(1) w2(1) w3(1) by (simp add: run_append run_Cons new_session_def)
  then show ?thesis
    using w1(2) w2(2) w3(2) by (simp add: only_texts_no_marker)
qed

text \<open>A session the server does not outlive: no terminal event handled, no marker.\<close>

lemma only_texts_stream: "only_texts ws \<Longrightarrow> DONE \<notin> set (stream_of ws)"
proof -
  assume "only_texts ws"
  from only_texts_writes [OF this] obtain xs where xs: "ws = map Write xs" "DONE \<notin> set xs"
    by blast
  have "stream_of (map Write xs) = xs"
    by (induction xs) auto
  then show ?thesis using xs by simp
qed

lemma server_death_leaves_no_marker:
  assumes "\<forall>ev \<in> set (take k evs). \<not> terminal ev"
  shows "DONE \<notin> set (response_stream parse ser name (Some k) evs (Spawned sp))"
proof -
  obtain ws where
    "res (run parse ser (spawn_tool sp) name (new_session (child_started sp)) (take k evs))
       = res (new_session (child_started sp)) @ ws" "only_texts ws"
    using run_res_other [OF assms] by blast
  then have "only_texts (res (serve parse ser name (Some k) sp evs))"
    by (simp add: serve_def new_session_def)
  then show ?thesis
    by (simp add: only_texts_stream)
qed

text \<open>The same when the operating system makes \<open>spawn\<close> throw, as on E2BIG.\<close>

lemma os_throw_leaves_no_marker:
  assumes "os (command t)
             (buildArgs t (model body) (systemPrompt body)
              @ (if inputMode t = Arg then [js ''-p'', p] else [])) = Throws"
  shows "response_stream parse ser name died evs (start_tool os t p body) = []"
proof -
  have "spawn os (command t)
          (buildArgs t (model body) (systemPrompt body)
           @ (if inputMode t = Arg then [js ''-p'', p] else [])) = Throws"
    using assms by (simp add: spawn_def)
  then show ?thesis
    by (cases "inputMode t = Arg") (simp_all add: start_tool_def Let_def)
qed

lemma nul_request_fields:
  "messages nul_request = MessageArray [user_hi]"
  "model nul_request = Some [0]"
  "systemPrompt nul_request = None"
  "providerName nul_request = js ''claude''"
  "providerName_index nul_request = js ''claude''"
  by (simp_all add: nul_request_def providerName_def providerName_index_def)

text \<open>
  Claim C1. Both handlers of the process write the marker and end the response, and
  nothing else writes it (the lemmas above). But the route flushes the streaming
  headers and then calls \<open>spawn\<close> outside any \<open>try\<close>: for the request whose
  \<open>model\<close> is the string of the one character U+0000, \<open>spawn\<close> throws on the
  argument, in both files and on every operating system. The response is open, no
  handler is registered, and its event stream stays empty, whatever events follow: it
  never holds the marker.
\<close>

theorem spawn_throw_leaves_no_marker:
  "chat os nul_request
     = SpawnThrew sse_headers (js ''claude'')
         [js ''-p'', js ''--output-format'', js ''stream-json'', js ''--verbose'',
          js ''--model'', [0]]
   \<and> chat_index os nul_request
     = SpawnThrew sse_headers (js ''claude'')
         [js ''-p'', js ''--output-format'', js ''stream-json'', js ''--verbose'',
          js ''--model'', [0]]
   \<and> response_stream parse ser name died evs (chat os nul_request) = []
   \<and> response_stream parse ser name died evs (chat_index os nul_request) = []"
proof -
  have args: "claude_buildArgs (Some [0]) None
      = [js ''-p'', js ''--output-format'', js ''stream-json'', js ''--verbose'',
         js ''--model'', [0]]"
    by (simp add: claude_buildArgs_def)
  have throws: "spawn os (js ''claude'') (claude_buildArgs (Some [0]) None) = Throws"
    by (simp add: spawn_def args has_nul_def)
  have a: "chat os nul_request
     = SpawnThrew sse_headers (js ''claude'') (claude_buildArgs (Some [0]) None)"
    by (simp add: chat_def nul_request_fields lookup_claude start_tool_def Let_def claude_def
          throws)
  have b: "chat_index os nul_request
     = SpawnThrew sse_headers (js ''claude'') (claude_buildArgs (Some [0]) None)"
    by (simp add: chat_index_def nul_request_fields lookup_claude_index start_tool_def Let_def
          claude_index_def throws)
  show ?thesis
    by (simp add: a b args)
qed

section \<open>Cancellation\<close>

lemma step_proc_cases:
  "proc (step parse ser t name s ev) =
     (case ev of
        StdoutData d \<Rightarrow> proc s
      | StderrData d \<Rightarrow> proc s
      | ProcExit \<Rightarrow> (proc s)\<lparr>running := False\<rparr>
      | ProcClose code \<Rightarrow> (proc s)\<lparr>running := False\<rparr>
      | ProcError msg \<Rightarrow> proc s
      | ResClose \<Rightarrow> (if killed (proc s) then proc s else proc_kill SIGTERM (proc s)))"
  by (cases ev)
     (auto simp: on_stdout_proc on_stderr_def Let_def ended_def on_close_def flush_proc
        on_error_def on_res_close_def)

lemma step_kill_inv:
  "kill_inv (proc s) \<Longrightarrow> kill_inv (proc (step parse ser t name s ev))"
  by (auto simp: step_proc_cases kill_inv_def proc_kill_def split: event.splits)

lemma run_kill_inv:
  "kill_inv (proc s) \<Longrightarrow> kill_inv (proc (run parse ser t name s evs))"
  by (induction evs arbitrary: s) (auto simp: run_def step_kill_inv)

lemma step_killed_stays:
  "killed (proc s) \<Longrightarrow> killed (proc (step parse ser t name s ev))"
  by (auto simp: step_proc_cases proc_kill_def split: event.splits)

lemma run_killed_stays:
  "killed (proc s) \<Longrightarrow> killed (proc (run parse ser t name s evs))"
  by (induction evs arbitrary: s) (auto simp: run_def step_killed_stays)

lemma step_running_stays:
  "\<not> process_ends ev \<Longrightarrow> running (proc s) \<Longrightarrow> running (proc (step parse ser t name s ev))"
  by (cases ev)
     (auto simp: on_stdout_proc on_stderr_def Let_def on_error_def on_res_close_def
        proc_kill_def)

lemma run_running_stays:
  "\<forall>ev \<in> set evs. \<not> process_ends ev \<Longrightarrow> running (proc s)
     \<Longrightarrow> running (proc (run parse ser t name s evs))"
  by (induction evs arbitrary: s) (auto simp: run_def step_running_stays)

lemma new_session_kill_inv: "kill_inv (proc (new_session b))"
  by (simp add: new_session_def kill_inv_def)

text \<open>
  Claim C9. In every session the process is sent at most one signal. When the response
  closes while the process of a started session has not ended, the process has been
  sent SIGTERM exactly once at the end of the session, whatever follows, further
  closes of the response included. The close handler changes nothing once \<open>killed\<close>
  is set, and nothing when the process has already ended: \<open>proc.kill\<close> on such a
  process is a no-op.
\<close>

theorem sigterm_once:
  "length (signals (proc (run parse ser t name (new_session started) evs))) \<le> 1
   \<and> ((\<forall>ev \<in> set pre. \<not> process_ends ev) \<longrightarrow>
        signals (proc (run parse ser t name (new_session True) (pre @ ResClose # post)))
          = [SIGTERM])
   \<and> (killed (proc s) \<longrightarrow> on_res_close s = s)
   \<and> (\<not> running (proc s) \<longrightarrow> on_res_close s = s)"
proof -
  have a: "length (signals (proc (run parse ser t name (new_session started) evs))) \<le> 1"
    using run_kill_inv [OF new_session_kill_inv, of parse ser t name started evs]
    by (auto simp: kill_inv_def split: if_splits)
  have b: "signals (proc (run parse ser t name (new_session True) (pre @ ResClose # post)))
          = [SIGTERM]" if pre: "\<forall>ev \<in> set pre. \<not> process_ends ev"
  proof -
    let ?s1 = "run parse ser t name (new_session True) pre"
    let ?s2 = "step parse ser t name ?s1 ResClose"
    have r: "running (proc ?s1)"
      using run_running_stays [OF pre] by (simp add: new_session_def)
    have "killed (proc ?s2)"
      using r by (simp add: on_res_close_def proc_kill_def)
    then have k: "killed (proc (run parse ser t name ?s2 post))"
      by (rule run_killed_stays)
    have "kill_inv (proc (run parse ser t name (new_session True) (pre @ ResClose # post)))"
      using run_kill_inv [OF new_session_kill_inv] .
    then show ?thesis
      using k by (simp add: run_append run_Cons kill_inv_def)
  qed
  have c: "on_res_close s = s" if "killed (proc s)"
    using that by (simp add: on_res_close_def)
  have d: "on_res_close s = s" if "\<not> running (proc s)"
    using that by (simp add: on_res_close_def proc_kill_def)
  from a b c d show ?thesis by blast
qed

theorem sigterm_once_witness:
  "signals (proc (run parse_delta quote_plain claude (js ''claude'') (new_session True)
      ([StdoutData [], ResClose] @ ResClose # [ProcExit, ResClose, ProcClose NoCode, ResClose])))
     = [SIGTERM]
   \<and> on_res_close (on_res_close (new_session True)) = on_res_close (new_session True)
   \<and> on_res_close (ended (new_session True)) = ended (new_session True)"
proof -
  have p: "\<forall>ev \<in> set [StdoutData [], ResClose]. \<not> process_ends ev"
    by simp
  have k: "killed (proc (on_res_close (new_session True)))"
    by (simp add: on_res_close_def proc_kill_def new_session_def)
  have e: "\<not> running (proc (ended (new_session True)))"
    by (simp add: ended_def)
  show ?thesis
    using p k e
      sigterm_once [of parse_delta quote_plain claude "js ''claude''" True "[]"
        "[StdoutData [], ResClose]" "[ProcExit, ResClose, ProcClose NoCode, ResClose]"
        "on_res_close (new_session True)"]
      sigterm_once [of parse_delta quote_plain claude "js ''claude''" True "[]"
        "[StdoutData [], ResClose]" "[ProcExit, ResClose, ProcClose NoCode, ResClose]"
        "ended (new_session True)"]
    by blast
qed

section \<open>The rolling buffer\<close>

lemma split_nl_nonempty: "split_nl xs \<noteq> []"
  by (induction xs) (auto split: list.splits)

lemma split_nl_line: "nl \<notin> set l \<Longrightarrow> split_nl (l @ [nl]) = [l, []]"
  by (induction l) auto

lemma split_nl_no_newline: "nl \<notin> set l \<Longrightarrow> split_nl l = [l]"
  by (induction l) auto

lemma split_nl_append:
  "split_nl (a @ b) = butlast (split_nl a) @ split_nl (last (split_nl a) @ b)"
proof (induction a)
  case Nil
  then show ?case by simp
next
  case (Cons c cs)
  obtain l ls where sp: "split_nl cs = l # ls"
    using split_nl_nonempty [of cs] by (cases "split_nl cs") auto
  show ?case
  proof (cases "c = nl")
    case True
    then show ?thesis using Cons.IH sp by simp
  next
    case False
    show ?thesis
    proof (cases ls)
      case Nil
      then show ?thesis using False Cons.IH sp by simp
    next
      case (Cons l' ls')
      then show ?thesis using False Cons.IH sp by simp
    qed
  qed
qed

lemma emit_buffer_update: "emit ser (s\<lparr>buffer := b\<rparr>) t = (emit ser s t)\<lparr>buffer := b\<rparr>"
  by (simp add: emit_def)

lemma foldl_emit_buffer_update:
  "foldl (emit ser) (s\<lparr>buffer := b\<rparr>) ems = (foldl (emit ser) s ems)\<lparr>buffer := b\<rparr>"
  by (induction ems arbitrary: s) (auto simp: emit_buffer_update)

lemma handle_line_buffer_update:
  "handle_line parse ser p (s\<lparr>buffer := b\<rparr>) line
     = (handle_line parse ser p s line)\<lparr>buffer := b\<rparr>"
proof (cases "trim line = []")
  case True
  then show ?thesis by (simp add: handle_line_def)
next
  case False
  obtain ems c where pc: "p parse line = (ems, c)" by (cases "p parse line")
  show ?thesis
    using False pc
    by (cases c) (auto simp: handle_line_def Let_def foldl_emit_buffer_update emit_buffer_update)
qed

lemma foldl_handle_line_buffer_update:
  "foldl (handle_line parse ser p) (s\<lparr>buffer := b\<rparr>) ls
     = (foldl (handle_line parse ser p) s ls)\<lparr>buffer := b\<rparr>"
  by (induction ls arbitrary: s) (auto simp: handle_line_buffer_update)

lemma feed_json:
  "parseStream t = Some p \<Longrightarrow>
   feed parse ser t s text =
     (foldl (handle_line parse ser p) s (butlast (split_nl (buffer s @ text))))
       \<lparr>buffer := last (split_nl (buffer s @ text))\<rparr>"
  by (simp add: feed_def Let_def pop_or_empty_def split_nl_nonempty
        foldl_handle_line_buffer_update)

text \<open>
  On decoded text the buffer does not see the chunk boundaries: feeding a tool with a
  parser two texts one after the other is feeding it their concatenation.
\<close>

lemma feed_append:
  assumes "parseStream t = Some p"
  shows "feed parse ser t (feed parse ser t s a) b = feed parse ser t s (a @ b)"
proof -
  let ?L1 = "split_nl (buffer s @ a)"
  let ?L2 = "split_nl (last ?L1 @ b)"
  have whole: "split_nl (buffer s @ a @ b) = butlast ?L1 @ ?L2"
    using split_nl_append [of "buffer s @ a" b] by simp
  have ne: "?L2 \<noteq> []" by (rule split_nl_nonempty)
  have bl: "butlast (butlast ?L1 @ ?L2) = butlast ?L1 @ butlast ?L2"
    using ne by (simp add: butlast_append)
  have la: "last (butlast ?L1 @ ?L2) = last ?L2"
    using ne by simp
  show ?thesis
    by (simp add: feed_json [OF assms] whole bl la foldl_handle_line_buffer_update)
qed

lemma decoded_boundary_invariance:
  assumes "parseStream t = Some p" and "buffer s = []"
  shows "foldl (feed parse ser t) s chunks = feed parse ser t s (concat chunks)"
proof (induction chunks rule: rev_induct)
  case Nil
  then show ?case using assms by (simp add: feed_json [OF assms(1)])
next
  case (snoc c cs)
  then show ?case by (simp add: feed_append [OF assms(1)])
qed

lemma feed_line:
  assumes "parseStream t = Some p" and "buffer s @ text = l @ [nl]" and "nl \<notin> set l"
  shows "feed parse ser t s text = handle_line parse ser p (s\<lparr>buffer := []\<rparr>) l"
  using assms by (simp add: feed_def split_nl_line pop_or_empty_def)

lemma feed_partial:
  assumes "parseStream t = Some p" and "nl \<notin> set (buffer s @ text)"
  shows "feed parse ser t s text = s\<lparr>buffer := buffer s @ text\<rparr>"
  using assms(1) split_nl_no_newline [OF assms(2)] by (simp add: feed_def pop_or_empty_def)

lemma utf8_go_ascii:
  "\<forall>c \<in> set h. c < 128 \<Longrightarrow> utf8_go 0 0 128 191 (h @ rest) = h @ utf8_go 0 0 128 191 rest"
  by (induction h) auto

lemma utf16_units_ascii: "\<forall>c \<in> set h. c < 128 \<Longrightarrow> concat (map utf16_units h) = h"
  by (induction h) auto

lemma unat_ascii_bytes: "\<forall>c \<in> set h. c < 128 \<Longrightarrow> map unat (ascii_bytes h) = h"
  by (induction h) (auto simp: ascii_bytes_def unat_of_nat)

lemma Buffer_toString_ascii:
  assumes "\<forall>c \<in> set h. c < 128"
  shows "Buffer_toString (ascii_bytes h @ bs) = h @ Buffer_toString bs"
  using assms
  by (simp add: Buffer_toString_def unat_ascii_bytes utf8_go_ascii utf16_units_ascii)

lemma delta_ascii:
  "\<forall>c \<in> set delta_head_js. c < 128" "\<forall>c \<in> set (delta_tail_js @ [nl]). c < 128"
  by (simp_all add: delta_head_js_def delta_tail_js_def quoted_def js_def dq_def nl_def)

lemma decode_whole:
  "Buffer_toString (ascii_bytes delta_head_js @ [195, 169] @ ascii_bytes (delta_tail_js @ [nl]))
     = delta_json [233] @ [nl]"
proof -
  have "Buffer_toString ([195, 169] @ ascii_bytes (delta_tail_js @ [nl]))
          = [233] @ delta_tail_js @ [nl]"
    using delta_ascii(2)
    by (simp add: Buffer_toString_def unat_ascii_bytes utf8_go_ascii utf16_units_ascii)
  then show ?thesis
    by (simp add: Buffer_toString_ascii [OF delta_ascii(1)] delta_json_def)
qed

lemma decode_first:
  "Buffer_toString (ascii_bytes delta_head_js @ [195]) = delta_head_js @ [65533]"
  by (simp add: Buffer_toString_ascii [OF delta_ascii(1)]) (simp add: Buffer_toString_def)

lemma decode_second:
  "Buffer_toString ([169] @ ascii_bytes (delta_tail_js @ [nl])) = [65533] @ delta_tail_js @ [nl]"
  using delta_ascii(2)
  by (simp add: Buffer_toString_def unat_ascii_bytes utf8_go_ascii utf16_units_ascii)

lemma handle_delta:
  assumes "t \<noteq> []" and "parse (delta_json t) = Some (delta_value t)"
  shows "handle_line parse ser claude_parseStream s (delta_json t) = emit ser s (JStr t)"
proof -
  have "delta_json t \<noteq> []"
    by (simp add: delta_json_def delta_head_js_def js_def)
  then show ?thesis
    using claude_delta [of t parse] assms by (simp add: handle_line_def trim_delta_json)
qed

lemma delta_newline_free:
  "nl \<notin> set (delta_json [233])" "nl \<notin> set (delta_json [65533, 65533])"
  "nl \<notin> set (delta_head_js @ [65533])"
  by (simp_all add: delta_json_def delta_head_js_def delta_tail_js_def quoted_def js_def
        nl_def dq_def)

text \<open>
  Claim C2. The handler decodes every chunk on its own (\<open>data.toString()\<close>) before
  the text joins the buffer, so a chunk boundary inside a multi-byte character changes
  the text. The bytes of one \<open>content_block_delta\<close> line whose text is U+00E9 (the
  bytes C3 A9): delivered in one chunk, the fragment is that character; delivered in
  two chunks split between C3 and A9, the fragment is two replacement characters.
\<close>

theorem split_character_changes_fragment:
  "res (run parse_delta ser claude (js ''claude'') (new_session True)
          [StdoutData (ascii_bytes delta_head_js @ [195, 169]
                       @ ascii_bytes (delta_tail_js @ [nl]))])
     = [Write (text_event ser (JStr [233]))]
   \<and> res (run parse_delta ser claude (js ''claude'') (new_session True)
          [StdoutData (ascii_bytes delta_head_js @ [195]),
           StdoutData ([169] @ ascii_bytes (delta_tail_js @ [nl]))])
     = [Write (text_event ser (JStr [65533, 65533]))]"
proof -
  let ?s0 = "new_session True"
  let ?s1 = "?s0\<lparr>buffer := delta_head_js @ [65533]\<rparr>"
  have p: "parseStream claude = Some claude_parseStream" by (simp add: claude_def)
  have b0: "buffer ?s0 = []" and r0: "res ?s0 = []" by (simp_all add: new_session_def)
  have one: "feed parse_delta ser claude ?s0 (delta_json [233] @ [nl])
               = emit ser (?s0\<lparr>buffer := []\<rparr>) (JStr [233])"
    using feed_line [of claude claude_parseStream ?s0 "delta_json [233] @ [nl]"
        "delta_json [233]" parse_delta ser]
      handle_delta [of "[233]" parse_delta ser "?s0\<lparr>buffer := []\<rparr>"]
    by (simp add: p b0 delta_newline_free parse_delta_1)
  have first: "feed parse_delta ser claude ?s0 (delta_head_js @ [65533]) = ?s1"
    using feed_partial [of claude claude_parseStream ?s0 "delta_head_js @ [65533]"
        parse_delta ser] delta_newline_free(3)
    by (simp add: p b0)
  have "buffer ?s1 @ [65533] @ delta_tail_js @ [nl] = delta_json [65533, 65533] @ [nl]"
    by (simp add: delta_json_def)
  from feed_line [OF p this delta_newline_free(2), of parse_delta ser]
  have second: "feed parse_delta ser claude ?s1 ([65533] @ delta_tail_js @ [nl])
               = emit ser (?s0\<lparr>buffer := []\<rparr>) (JStr [65533, 65533])"
    using handle_delta [of "[65533, 65533]" parse_delta ser "?s0\<lparr>buffer := []\<rparr>"]
    by (simp add: parse_delta_2)
  show ?thesis
    by (simp add: run_def on_stdout_def decode_whole decode_first decode_second one first
          second emit_def r0 del: append_assoc append.simps)
qed

end
